(* ===== verification/Prelude.thy ===== *)
theory Prelude
  imports Main
begin

text \<open>
  Shared vocabulary of the development: the enums of the Prisma schema that the create
  handler reads (\<open>SchedulingType\<close>, \<open>MembershipRole\<close>), the location descriptor stored on
  an event type, the exceptions the handler can raise (\<open>TRPCError\<close> with its code and its
  message, which may itself be a caught exception), the observable side effects
  (\<open>console.warn\<close> and the call to \<open>handlePayments\<close>), and JavaScript truthiness of the
  optional values the handler tests with \<open>?\<close>, \<open>&&\<close> and \<open>!\<close>.
\<close>

named_theorems model_simps "unfolding rules of the model's operations"
named_theorems store_wf "facts on the well-formedness of the event-type store"

subsection \<open>Enums and shared records\<close>

datatype scheduling_type = ROUND_ROBIN | COLLECTIVE | MANAGED

datatype membership_role = MEMBER | ADMIN | OWNER

text \<open>\<open>{ type: string; link?: string }\<close>, the element type of \<open>locations\<close>.\<close>

record location =
  loc_type :: string
  loc_link :: "string option"

subsection \<open>Exceptions\<close>

text \<open>
  \<open>new TRPCError({ code, message })\<close>. The handler's catch block passes the caught
  exception itself as \<open>message\<close>, so a message is either absent, a string, or a nested
  exception. \<open>ZodError\<close> is what \<open>userMetadataSchema.parse\<close> throws on malformed user
  metadata; \<open>RecordNotFound\<close> is Prisma's error for a delete whose row is gone;
  \<open>ServiceError\<close> is any other exception an awaited collaborator throws (a Prisma client
  error, a failed network call), with its message.
\<close>

datatype error_code = UNAUTHORIZED | BAD_REQUEST | INTERNAL_SERVER_ERROR

datatype exn =
    TRPCError error_code msg
  | ZodError
  | RecordNotFound
  | ServiceError string
and msg =
    NoMessage
  | Message string
  | Cause exn

fun exn_code :: "exn \<Rightarrow> error_code option" where
  "exn_code (TRPCError c _) = Some c"
| "exn_code ZodError = None"
| "exn_code RecordNotFound = None"
| "exn_code (ServiceError _) = None"

subsection \<open>Observable effects\<close>

text \<open>
  The payment request handed to \<open>handlePayments\<close>: \<open>{ title, slug, amount, id }\<close>.
\<close>

record payment_info =
  pi_title :: string
  pi_slug :: string
  pi_amount :: nat
  pi_id :: nat

datatype effect =
    WarnNoPermission nat
  | ChargeCall payment_info string string

subsection \<open>JavaScript truthiness\<close>

text \<open>
  \<open>teamId ? \<dots>\<close> and \<open>teamId && \<dots>\<close> treat \<open>undefined\<close>, \<open>null\<close> and \<open>0\<close> as false;
  \<open>!payment\<close> and \<open>username || ""\<close> treat a missing value and the empty string as false.
\<close>

definition truthy_nat :: "nat option \<Rightarrow> bool" where
  "truthy_nat x = (case x of None \<Rightarrow> False | Some n \<Rightarrow> n \<noteq> 0)"

definition truthy_str :: "string option \<Rightarrow> bool" where
  "truthy_str x = (case x of None \<Rightarrow> False | Some s \<Rightarrow> s \<noteq> [])"

definition or_empty :: "string option \<Rightarrow> string" where
  "or_empty x = (case x of None \<Rightarrow> [] | Some s \<Rightarrow> s)"

subsection \<open>Generic lemmas\<close>

lemma truthy_nat_simps [simp]:
  "truthy_nat None = False"
  "truthy_nat (Some n) = (n \<noteq> 0)"
  by (simp_all add: truthy_nat_def)

lemma truthy_str_simps [simp]:
  "truthy_str None = False"
  "truthy_str (Some s) = (s \<noteq> [])"
  by (simp_all add: truthy_str_def)

lemma or_empty_simps [simp]:
  "or_empty None = []"
  "or_empty (Some s) = s"
  by (simp_all add: or_empty_def)

lemma truthy_nat_Some_iff: "truthy_nat x \<longleftrightarrow> (\<exists>n. x = Some n \<and> n \<noteq> 0)"
  by (cases x) auto

lemma find_Some_mem [intro]: "find P xs = Some x \<Longrightarrow> x \<in> set xs"
  by (induction xs) (auto split: if_splits)

lemma find_Some_sat: "find P xs = Some x \<Longrightarrow> P x"
  by (induction xs) (auto split: if_splits)

end
