(* ===== verification/Locations.thy ===== *)
theory Locations
  imports Prelude
begin

text \<open>
  The location resolver of \<open>createHandler\<close> (create.handler.ts, lines 29 to 53): the
  user's default conferencing app from the parsed user metadata, the Daily API key of
  \<open>getAppKeysFromSlug("daily-video")\<close>, and the apps installed for the user
  (\<open>getApps(getUsersCredentials(user.id), true)\<close>) determine the \<open>locations\<close> of the
  new event type. The code assigns \<open>locations\<close> twice; the second assignment, an
  if/else whose two branches both assign, always overwrites the first. So neither the
  caller's locations nor the Daily key has any effect on the result.
\<close>

subsection \<open>Data\<close>

text \<open>Location type constants of \<open>@calcom/app-store/locations\<close>.\<close>

definition DailyLocationType :: string where
  "DailyLocationType = ''integrations:daily''"

definition MeetLocationType :: string where
  "MeetLocationType = ''integrations:google:meet''"

text \<open>\<open>defaultConferencingApp\<close> of the user metadata: \<open>{ appSlug, appLink? }\<close>.\<close>

record conferencing_app =
  appSlug :: string
  appLink :: "string option"

text \<open>An installed app as \<open>getApps\<close> returns it: its slug and \<open>locationOption?.value\<close>.\<close>

record app =
  app_slug :: string
  locationOption :: "string option"

subsection \<open>Operations\<close>

text \<open>
  Lines 34 to 42: start from \<open>[]\<close>; when the caller passed no locations (absent or
  empty) and the Daily API key is a string, \<open>[{ type: DailyLocationType }]\<close>.
\<close>

definition initial_locations :: "location list option \<Rightarrow> string option \<Rightarrow> location list" where
  "initial_locations locs api_key =
     (if (locs = None \<or> locs = Some []) \<and> api_key \<noteq> None
      then [\<lparr>loc_type = DailyLocationType, loc_link = None\<rparr>]
      else [])"

text \<open>
  Lines 46 to 48: \<open>getApps(\<dots>).filter(app => app.slug === appSlug)[0]\<close>; indexing an
  empty array yields \<open>undefined\<close>.
\<close>

definition find_app :: "app list \<Rightarrow> string \<Rightarrow> app option" where
  "find_app apps s = (case filter (\<lambda>a. app_slug a = s) apps of [] \<Rightarrow> None | a # _ \<Rightarrow> Some a)"

text \<open>Line 49: \<open>foundApp?.locationOption?.value ?? DailyLocationType\<close>.\<close>

definition app_location_type :: "app option \<Rightarrow> string" where
  "app_location_type found =
     (case found of
        None \<Rightarrow> DailyLocationType
      | Some a \<Rightarrow> (case locationOption a of None \<Rightarrow> DailyLocationType | Some v \<Rightarrow> v))"

text \<open>
  Lines 44 to 53: the second assignment of \<open>locations\<close>. It receives the value of the first
  assignment and, as the code does, replaces it in both branches.
\<close>

definition assign_default_conferencing ::
  "location list \<Rightarrow> conferencing_app option \<Rightarrow> app list \<Rightarrow> location list" where
  "assign_default_conferencing locations dcd apps =
     (case dcd of
        Some c \<Rightarrow>
          (if appSlug c \<noteq> ''daily-video''
           then [\<lparr>loc_type = app_location_type (find_app apps (appSlug c)),
                  loc_link = appLink c\<rparr>]
           else [\<lparr>loc_type = MeetLocationType, loc_link = None\<rparr>])
      | None \<Rightarrow> [\<lparr>loc_type = MeetLocationType, loc_link = None\<rparr>])"

text \<open>Lines 34 to 53 in sequence.\<close>

definition resolve_locations ::
  "location list option \<Rightarrow> string option \<Rightarrow> conferencing_app option \<Rightarrow> app list \<Rightarrow> location list" where
  "resolve_locations locs api_key dcd apps =
     assign_default_conferencing (initial_locations locs api_key) dcd apps"

lemmas location_defs [model_simps] =
  resolve_locations_def assign_default_conferencing_def app_location_type_def find_app_def

subsection \<open>Lemmas\<close>

lemma find_app_None:
  "find_app apps s = None \<longleftrightarrow> list_all (\<lambda>a. app_slug a \<noteq> s) apps"
  by (induction apps) (auto simp: find_app_def)

lemma assign_default_conferencing_ignores_prior:
  "assign_default_conferencing l dcd apps = assign_default_conferencing l' dcd apps"
  by (simp add: assign_default_conferencing_def)

text \<open>
  Divergence from the comment of line 36 ("no locations + daily api key -> default to
  daily"): the result depends on the default-conferencing preference and the installed
  apps only. Neither the caller's \<open>locations\<close> nor the Daily API key changes it, because
  the assignment of lines 44 to 53 always overwrites that of lines 37 to 42.
\<close>

lemma resolve_locations_ignores_caller_and_key:
  "resolve_locations locs api_key dcd apps = resolve_locations locs' api_key' dcd apps"
  by (simp add: resolve_locations_def assign_default_conferencing_ignores_prior)

text \<open>
  C10. Spec property 2: with a non-Daily default conferencing app whose installed app
  offers a location option, the single location has that option's type and the
  preference's link.
\<close>

theorem resolve_locations_default_app:
  assumes "appSlug c \<noteq> ''daily-video''" and "find_app apps (appSlug c) = Some a"
    and "locationOption a = Some v"
  shows "resolve_locations locs api_key (Some c) apps = [\<lparr>loc_type = v, loc_link = appLink c\<rparr>]"
  using assms by (simp add: resolve_locations_def assign_default_conferencing_def app_location_type_def)

text \<open>
  Divergence from the comment of line 36 and from spec property 1: without a preference,
  or with Daily as the preference, the location is Google Meet, whatever the caller passed
  and whether or not a Daily API key exists, where the comment says Daily.
\<close>

lemma resolve_locations_meet_default:
  "resolve_locations locs api_key None apps = [\<lparr>loc_type = MeetLocationType, loc_link = None\<rparr>] \<and>
   resolve_locations locs api_key (Some \<lparr>appSlug = ''daily-video'', appLink = l\<rparr>) apps =
     [\<lparr>loc_type = MeetLocationType, loc_link = None\<rparr>]"
  by (simp add: resolve_locations_def assign_default_conferencing_def)

text \<open>
  C11. With a non-Daily preference whose app is not installed, the location falls back to
  the Daily type and still carries the preference's link.
\<close>

theorem resolve_locations_fallback_daily:
  assumes "appSlug c \<noteq> ''daily-video''" and "list_all (\<lambda>a. app_slug a \<noteq> appSlug c) apps"
  shows "resolve_locations locs api_key (Some c) apps =
           [\<lparr>loc_type = DailyLocationType, loc_link = appLink c\<rparr>]"
proof -
  from assms(2) have "find_app apps (appSlug c) = None" by (simp add: find_app_None)
  with assms(1) show ?thesis
    by (simp add: resolve_locations_def assign_default_conferencing_def app_location_type_def)
qed

end
