(* ===== verification/Store.thy ===== *)
theory Store
  imports Prelude
begin

text \<open>
  The persistence collaborator (\<open>ctx.prisma\<close> and the module-level \<open>prisma\<close>), modelled
  from its contract in the spec (section 6): event-type rows with a database-assigned id,
  the read-only membership table, and the four calls the handler makes:
  \<open>membership.findFirst\<close>, \<open>eventType.findFirst\<close>, \<open>eventType.create\<close> and
  \<open>eventType.delete\<close>. Both Prisma handles of the handler are the same store.
  The invariant \<open>wf_db\<close> says that row ids are distinct and below the id counter, which
  is what makes the compensating delete remove exactly the row just created.
\<close>

subsection \<open>Rows and the store\<close>

record membership =
  m_userId :: nat
  m_teamId :: nat
  m_accepted :: bool
  m_role :: membership_role

record event_type =
  ev_id :: nat
  ev_uid :: string
  ev_title :: string
  ev_slug :: string
  ev_length :: nat
  ev_amount :: nat
  ev_paid :: bool
  ev_owner :: "nat option"
  ev_users :: "nat list"
  ev_team :: "nat option"
  ev_schedulingType :: "scheduling_type option"
  ev_locations :: "location list"
  ev_metadata :: "string option"

text \<open>
  \<open>Prisma.EventTypeCreateInput\<close> as the handler builds it: the spread fields of the input,
  \<open>uid\<close>, the optional \<open>owner\<close>, \<open>users\<close> and \<open>team\<close> connections, the scheduling
  type, the locations and the metadata.
\<close>

record create_data =
  d_uid :: string
  d_title :: string
  d_slug :: string
  d_length :: nat
  d_amount :: nat
  d_owner :: "nat option"
  d_users :: "nat option"
  d_team :: "nat option"
  d_schedulingType :: "scheduling_type option"
  d_locations :: "location list"
  d_metadata :: "string option"

record db =
  eventTypes :: "event_type list"
  memberships :: "membership list"
  next_id :: nat

subsection \<open>Operations\<close>

text \<open>\<open>membership.findFirst({ where: { userId, teamId, accepted: true } })\<close>.\<close>

definition membership_findFirst :: "db \<Rightarrow> nat \<Rightarrow> nat \<Rightarrow> membership option" where
  "membership_findFirst s u t =
     find (\<lambda>m. m_userId m = u \<and> m_teamId m = t \<and> m_accepted m) (memberships s)"

text \<open>\<open>eventType.findFirst({ where: { userId, slug, paid: true } })\<close>.\<close>

definition eventType_findFirst :: "db \<Rightarrow> nat \<Rightarrow> string \<Rightarrow> event_type option" where
  "eventType_findFirst s u sl =
     find (\<lambda>e. ev_owner e = Some u \<and> ev_slug e = sl \<and> ev_paid e) (eventTypes s)"

text \<open>The row \<open>eventType.create({ data })\<close> stores; \<open>paid\<close> starts false.\<close>

definition row_of_data :: "nat \<Rightarrow> create_data \<Rightarrow> event_type" where
  "row_of_data i d =
     \<lparr>ev_id = i, ev_uid = d_uid d, ev_title = d_title d, ev_slug = d_slug d,
      ev_length = d_length d, ev_amount = d_amount d, ev_paid = False,
      ev_owner = d_owner d,
      ev_users = (case d_users d of None \<Rightarrow> [] | Some u \<Rightarrow> [u]),
      ev_team = d_team d, ev_schedulingType = d_schedulingType d,
      ev_locations = d_locations d, ev_metadata = d_metadata d\<rparr>"

definition eventType_create :: "db \<Rightarrow> create_data \<Rightarrow> event_type \<times> db" where
  "eventType_create s d =
     (let e = row_of_data (next_id s) d
      in (e, s\<lparr>eventTypes := eventTypes s @ [e], next_id := Suc (next_id s)\<rparr>))"

text \<open>\<open>eventType.delete({ where: { id } })\<close>: Prisma throws when no row has the id.\<close>

definition eventType_delete :: "db \<Rightarrow> nat \<Rightarrow> exn + db" where
  "eventType_delete s i =
     (if list_ex (\<lambda>e. ev_id e = i) (eventTypes s)
      then Inr (s\<lparr>eventTypes := filter (\<lambda>e. ev_id e \<noteq> i) (eventTypes s)\<rparr>)
      else Inl RecordNotFound)"

subsection \<open>Well-formedness\<close>

definition wf_db :: "db \<Rightarrow> bool" where
  "wf_db s \<longleftrightarrow>
     distinct (map ev_id (eventTypes s)) \<and> list_all (\<lambda>e. ev_id e < next_id s) (eventTypes s)"

lemmas store_defs [model_simps] =
  membership_findFirst_def eventType_findFirst_def eventType_create_def eventType_delete_def

lemma row_of_data_id [simp]: "ev_id (row_of_data i d) = i"
  by (simp add: row_of_data_def)

lemma row_of_data_fields [simp]:
  "ev_slug (row_of_data i d) = d_slug d"
  "ev_paid (row_of_data i d) = False"
  "ev_owner (row_of_data i d) = d_owner d"
  "ev_team (row_of_data i d) = d_team d"
  "ev_locations (row_of_data i d) = d_locations d"
  "ev_amount (row_of_data i d) = d_amount d"
  "ev_uid (row_of_data i d) = d_uid d"
  "ev_title (row_of_data i d) = d_title d"
  "ev_schedulingType (row_of_data i d) = d_schedulingType d"
  "ev_users (row_of_data i d) = (case d_users d of None \<Rightarrow> [] | Some u \<Rightarrow> [u])"
  by (simp_all add: row_of_data_def)

lemma eventType_create_row:
  "eventType_create s d = (e, s') \<Longrightarrow> e = row_of_data (next_id s) d"
  by (auto simp: eventType_create_def Let_def)

lemma eventType_create_state:
  "eventType_create s d = (e, s') \<Longrightarrow>
     s' = s\<lparr>eventTypes := eventTypes s @ [e], next_id := Suc (next_id s)\<rparr>"
  by (auto simp: eventType_create_def Let_def)

lemma wf_db_create [store_wf]:
  "wf_db s \<Longrightarrow> eventType_create s d = (e, s') \<Longrightarrow> wf_db s'"
  by (fastforce simp: wf_db_def eventType_create_def Let_def list_all_iff less_Suc_eq)

lemma wf_db_delete [store_wf]:
  "wf_db s \<Longrightarrow> eventType_delete s i = Inr s' \<Longrightarrow> wf_db s'"
  by (auto simp: wf_db_def eventType_delete_def list_all_iff distinct_map_filter
      split: if_splits)

lemma wf_db_bump [store_wf]:
  "wf_db s \<Longrightarrow> wf_db (s\<lparr>next_id := Suc (next_id s)\<rparr>)"
  by (auto simp: wf_db_def list_all_iff)

lemma filter_fresh_id:
  "list_all (\<lambda>e. ev_id e < n) es \<Longrightarrow> filter (\<lambda>e. ev_id e \<noteq> n) es = es"
  by (induction es) auto

text \<open>
  Round trip: deleting the row that \<open>eventType.create\<close> just returned restores the rows
  of the store; only the id counter has moved on.
\<close>

lemma create_then_delete [store_wf]:
  assumes "wf_db s" and "eventType_create s d = (e, s')"
  shows "eventType_delete s' (ev_id e) = Inr (s\<lparr>next_id := Suc (next_id s)\<rparr>)"
proof -
  from assms(2) have e: "e = row_of_data (next_id s) d"
    and s': "s' = s\<lparr>eventTypes := eventTypes s @ [e], next_id := Suc (next_id s)\<rparr>"
    by (rule eventType_create_row, rule eventType_create_state)
  from assms(1) have "filter (\<lambda>x. ev_id x \<noteq> next_id s) (eventTypes s) = eventTypes s"
    by (intro filter_fresh_id) (simp add: wf_db_def)
  with e s' show ?thesis
    by (simp add: eventType_delete_def)
qed

end
