(* ===== verification/Authorization.thy ===== *)
theory Authorization
  imports Store
begin

text \<open>
  The authorization check of \<open>createHandler\<close> (create.handler.ts, lines 65 to 85). When
  both \<open>teamId\<close> and \<open>schedulingType\<close> are truthy, the handler looks up an accepted
  membership of the user in the team. Without a role of ADMIN or OWNER it logs a warning
  and throws \<open>UNAUTHORIZED\<close>. Otherwise it connects the team and sets the scheduling type
  on the create payload. The abstract contract \<open>may_create_in_team\<close> is the spec's
  (section 4.2): some accepted membership with role ADMIN or OWNER. The check implements it
  exactly when (user, team) pairs are unique among memberships.
\<close>

subsection \<open>Operations\<close>

text \<open>Line 74: \<open>!hasMembership?.role || !["ADMIN", "OWNER"].includes(hasMembership.role)\<close>, negated.\<close>

definition has_admin_role :: "membership option \<Rightarrow> bool" where
  "has_admin_role hm = (case hm of None \<Rightarrow> False | Some m \<Rightarrow> m_role m \<in> set [ADMIN, OWNER])"

text \<open>Lines 66 to 77: the lookup, the warning and the \<open>UNAUTHORIZED\<close> error.\<close>

definition authorize :: "db \<Rightarrow> nat \<Rightarrow> nat \<Rightarrow> (exn + unit) \<times> effect list" where
  "authorize s userId teamId =
     (let hasMembership = membership_findFirst s userId teamId
      in if has_admin_role hasMembership then (Inr (), [])
         else (Inl (TRPCError UNAUTHORIZED NoMessage), [WarnNoPermission userId]))"

text \<open>
  Lines 65 to 85: the guard \<open>teamId && schedulingType\<close> (a team id of \<open>0\<close> is falsy), then
  the check and, on success, \<open>data.team\<close> and \<open>data.schedulingType\<close>.
\<close>

definition attach_team ::
  "db \<Rightarrow> nat \<Rightarrow> nat option \<Rightarrow> scheduling_type option \<Rightarrow> create_data \<Rightarrow>
     (exn + create_data) \<times> effect list" where
  "attach_team s userId teamId schedulingType data =
     (case (teamId, schedulingType) of
        (Some t, Some st) \<Rightarrow>
          (if t \<noteq> 0 then
             (case authorize s userId t of
                (Inl e, ws) \<Rightarrow> (Inl e, ws)
              | (Inr _, ws) \<Rightarrow> (Inr (data\<lparr>d_team := Some t, d_schedulingType := Some st\<rparr>), ws))
           else (Inr data, []))
      | _ \<Rightarrow> (Inr data, []))"

subsection \<open>Abstract contract\<close>

definition may_create_in_team :: "db \<Rightarrow> nat \<Rightarrow> nat \<Rightarrow> bool" where
  "may_create_in_team s u t \<longleftrightarrow>
     list_ex (\<lambda>m. m_userId m = u \<and> m_teamId m = t \<and> m_accepted m \<and> m_role m \<in> {ADMIN, OWNER})
       (memberships s)"

definition unique_memberships :: "db \<Rightarrow> bool" where
  "unique_memberships s \<longleftrightarrow> distinct (map (\<lambda>m. (m_userId m, m_teamId m)) (memberships s))"

text \<open>The guard of lines 65 to 77 lets the request through: no team step, or a permitted role.\<close>

definition team_authorized :: "db \<Rightarrow> nat \<Rightarrow> nat option \<Rightarrow> scheduling_type option \<Rightarrow> bool" where
  "team_authorized s u teamId schedulingType =
     (case (teamId, schedulingType) of
        (Some t, Some _) \<Rightarrow> t = 0 \<or> has_admin_role (membership_findFirst s u t)
      | _ \<Rightarrow> True)"

lemmas authorization_defs [model_simps] = has_admin_role_def authorize_def attach_team_def

subsection \<open>Lemmas\<close>

lemma authorize_cases:
  "authorize s u t =
     (if has_admin_role (membership_findFirst s u t) then (Inr (), [])
      else (Inl (TRPCError UNAUTHORIZED NoMessage), [WarnNoPermission u]))"
  by (simp add: authorize_def)

lemma has_admin_role_sound:
  "has_admin_role (membership_findFirst s u t) \<Longrightarrow> may_create_in_team s u t"
proof -
  assume h: "has_admin_role (membership_findFirst s u t)"
  then obtain m where m: "membership_findFirst s u t = Some m" and r: "m_role m \<in> {ADMIN, OWNER}"
    by (auto simp: has_admin_role_def split: option.splits)
  from m have "m \<in> set (memberships s)"
    and "m_userId m = u \<and> m_teamId m = t \<and> m_accepted m"
    by (auto simp: membership_findFirst_def dest: find_Some_sat)
  with r show ?thesis
    by (auto simp: may_create_in_team_def list_ex_iff)
qed

lemma find_unique_key:
  assumes "distinct (map k xs)" and "x \<in> set xs" and "P x"
    and "\<And>y. y \<in> set xs \<Longrightarrow> P y \<Longrightarrow> k y = k x"
  shows "find P xs = Some x"
  using assms
proof (induction xs)
  case Nil
  then show ?case by simp
next
  case (Cons a xs)
  show ?case
  proof (cases "P a")
    case True
    have "k a = k x" by (rule Cons.prems(4)) (simp_all add: True)
    with Cons.prems(1,2) have "a = x" by (auto simp: image_iff)
    with True show ?thesis by simp
  next
    case False
    with Cons.prems(2,3) have x: "x \<in> set xs" by auto
    have "find P xs = Some x"
    proof (rule Cons.IH)
      show "distinct (map k xs)" using Cons.prems(1) by simp
      show "x \<in> set xs" by (rule x)
      show "P x" by (rule Cons.prems(3))
      fix y assume "y \<in> set xs" "P y"
      then show "k y = k x" by (intro Cons.prems(4)) simp_all
    qed
    with False show ?thesis by simp
  qed
qed

lemma has_admin_role_complete:
  assumes "unique_memberships s" and "may_create_in_team s u t"
  shows "has_admin_role (membership_findFirst s u t)"
proof -
  from assms(2) obtain m where m: "m \<in> set (memberships s)"
    and p: "m_userId m = u \<and> m_teamId m = t \<and> m_accepted m" and r: "m_role m \<in> {ADMIN, OWNER}"
    by (auto simp: may_create_in_team_def list_ex_iff)
  have "membership_findFirst s u t = Some m"
    unfolding membership_findFirst_def
    by (rule find_unique_key [where k = "\<lambda>m. (m_userId m, m_teamId m)"])
       (use assms(1) m p in \<open>auto simp: unique_memberships_def\<close>)
  with r show ?thesis by (auto simp: has_admin_role_def)
qed

lemma attach_team_no_team:
  "\<not> (truthy_nat teamId \<and> schedulingType \<noteq> None) \<Longrightarrow>
     attach_team s u teamId schedulingType data = (Inr data, [])"
  by (auto simp: attach_team_def split: option.splits)

lemma attach_team_team:
  "attach_team s u (Some t) (Some st) data =
     (if t \<noteq> 0 then
        (if has_admin_role (membership_findFirst s u t)
         then (Inr (data\<lparr>d_team := Some t, d_schedulingType := Some st\<rparr>), [])
         else (Inl (TRPCError UNAUTHORIZED NoMessage), [WarnNoPermission u]))
      else (Inr data, []))"
  by (simp add: attach_team_def authorize_cases)

lemma attach_team_Inr_team:
  "attach_team s u teamId sty data = (Inr data', ws) \<Longrightarrow>
     ws = [] \<and> (d_team data' = d_team data \<or>
       (\<exists>t. teamId = Some t \<and> d_team data' = Some t \<and> has_admin_role (membership_findFirst s u t)))"
  by (auto simp: attach_team_def authorize_cases split: option.splits if_splits)

lemma attach_team_Inr_fields:
  "attach_team s u teamId sty data = (Inr data', ws) \<Longrightarrow>
     d_slug data' = d_slug data \<and> d_owner data' = d_owner data \<and> d_users data' = d_users data \<and>
     d_locations data' = d_locations data \<and> d_amount data' = d_amount data"
  by (auto simp: attach_team_def authorize_cases split: option.splits if_splits)

lemma attach_team_Inl:
  "attach_team s u teamId sty data = (Inl e, ws) \<Longrightarrow>
     e = TRPCError UNAUTHORIZED NoMessage \<and> ws = [WarnNoPermission u]"
  by (auto simp: attach_team_def authorize_cases split: option.splits if_splits)

lemma attach_team_authorized:
  assumes "team_authorized s u teamId sty"
  obtains d where "attach_team s u teamId sty data = (Inr d, [])"
proof (cases "truthy_nat teamId \<and> sty \<noteq> None")
  case True
  then obtain t st where t: "teamId = Some t" "t \<noteq> 0" and st: "sty = Some st"
    by (auto simp: truthy_nat_Some_iff)
  with assms have "has_admin_role (membership_findFirst s u t)"
    by (simp add: team_authorized_def)
  with t st show ?thesis
    by (intro that) (simp add: attach_team_team)
next
  case False
  then show ?thesis
    by (intro that) (rule attach_team_no_team)
qed

text \<open>
  C15. Refinement of the spec's authorization contract (section 4.2): when (user, team)
  pairs are unique among memberships, the check lets the request through exactly when
  the user holds an accepted ADMIN or OWNER membership in the team, and otherwise logs the
  warning and fails with \<open>UNAUTHORIZED\<close>.
\<close>

theorem authorize_refines_contract:
  assumes "unique_memberships s"
  shows "authorize s u t =
           (if may_create_in_team s u t then (Inr (), [])
            else (Inl (TRPCError UNAUTHORIZED NoMessage), [WarnNoPermission u]))"
proof (cases "may_create_in_team s u t")
  case True
  with assms have "has_admin_role (membership_findFirst s u t)"
    by (rule has_admin_role_complete)
  with True show ?thesis by (simp add: authorize_cases)
next
  case False
  then have "\<not> has_admin_role (membership_findFirst s u t)"
    by (auto dest: has_admin_role_sound)
  with False show ?thesis by (simp add: authorize_cases)
qed

end
