(* ===== verification/CreateHandler.thy ===== *)
theory CreateHandler
  imports Locations Authorization
begin

text \<open>
  \<open>createHandler\<close> of create.handler.ts, in the order of the code: parse the user
  metadata (line 31), resolve the locations (lines 34 to 53, theory \<open>Locations\<close>), build
  the create payload (lines 54 to 63), check the team membership (lines 65 to 85, theory
  \<open>Authorization\<close>), then the \<open>try\<close> block (lines 87 to 134): the duplicate-slug check,
  the clearing of \<open>data.slug\<close>, the insert, the call to \<open>handlePayments\<close> and the
  compensating delete. The \<open>catch\<close> (lines 135 to 137) rethrows every error of the
  \<open>try\<close> block as \<open>BAD_REQUEST\<close>, with the caught error as its message.
  The collaborators the handler only calls (\<open>uuid\<close>, \<open>getAppKeysFromSlug\<close>,
  \<open>getUsersCredentials\<close> with \<open>getApps\<close>, \<open>handlePayments\<close>) are fields of
  \<open>handler_env\<close>, so every lemma holds for any behaviour of them. The handler's state is
  the \<open>world\<close>: the Prisma store and the log of observable effects.
\<close>

subsection \<open>Data\<close>

text \<open>\<open>TCreateInputSchema\<close>: the fields the handler destructures or spreads.\<close>

record create_input =
  inp_title :: string
  inp_slug :: string
  inp_length :: nat
  inp_amount :: nat
  inp_locations :: "location list option"
  inp_schedulingType :: "scheduling_type option"
  inp_teamId :: "nat option"
  inp_metadata :: "string option"

text \<open>\<open>ctx.user.metadata\<close> as \<open>userMetadataSchema\<close> sees it.\<close>

datatype user_metadata =
    MetaMalformed
  | MetaNull
  | MetaObject "conferencing_app option"

record session_user =
  user_id :: nat
  user_email :: string
  user_username :: "string option"
  user_metadata :: user_metadata

record handler_env =
  env_uuid :: string
  daily_api_key :: "string option"
  apps_of :: "nat \<Rightarrow> app list"
  handlePayments :: "payment_info \<Rightarrow> string \<Rightarrow> string \<Rightarrow> string option"

record create_result =
  paymentUid :: string

record world =
  store :: db
  effects :: "effect list"

subsection \<open>Operations\<close>

text \<open>Line 31: \<open>userMetadataSchema.parse(ctx.user.metadata)?.defaultConferencingApp\<close>.\<close>

definition parse_user_metadata :: "user_metadata \<Rightarrow> exn + conferencing_app option" where
  "parse_user_metadata md =
     (case md of MetaMalformed \<Rightarrow> Inl ZodError | MetaNull \<Rightarrow> Inr None | MetaObject d \<Rightarrow> Inr d)"

text \<open>
  Lines 54 to 63. \<open>...rest\<close> carries the spread fields; its \<open>locations\<close> key is
  overwritten by the resolved \<open>locations\<close>; \<open>owner\<close> is connected unless \<open>teamId\<close> is
  truthy, \<open>users\<close> unless the type is managed.
\<close>

definition build_data :: "create_input \<Rightarrow> string \<Rightarrow> nat \<Rightarrow> location list \<Rightarrow> create_data" where
  "build_data inp uid userId locations =
     \<lparr>d_uid = uid, d_title = inp_title inp, d_slug = inp_slug inp, d_length = inp_length inp,
      d_amount = inp_amount inp,
      d_owner = (if truthy_nat (inp_teamId inp) then None else Some userId),
      d_users = (if inp_schedulingType inp = Some MANAGED then None else Some userId),
      d_team = None, d_schedulingType = None,
      d_locations = locations, d_metadata = inp_metadata inp\<rparr>"

text \<open>Lines 88 to 100: a paid event of the user with this slug is an error; else the slug is cleared.\<close>

definition check_slug :: "db \<Rightarrow> nat \<Rightarrow> create_data \<Rightarrow> exn + create_data" where
  "check_slug s userId data =
     (case eventType_findFirst s userId (d_slug data) of
        Some _ \<Rightarrow> Inl (TRPCError BAD_REQUEST (Message ''URL Slug already exists for given user.''))
      | None \<Rightarrow> Inr (data\<lparr>d_slug := ''''\<rparr>))"

text \<open>
  Lines 102 to 134: insert, call \<open>handlePayments\<close> with the input's title and slug and the
  created row's amount and id; when the payment is falsy, delete the row and throw
  \<open>INTERNAL_SERVER_ERROR\<close>; else return \<open>{ paymentUid: payment }\<close>.
\<close>

definition charge_or_rollback ::
  "handler_env \<Rightarrow> session_user \<Rightarrow> create_input \<Rightarrow> create_data \<Rightarrow> world \<Rightarrow>
     (exn + create_result) \<times> world" where
  "charge_or_rollback env u inp data w =
     (case eventType_create (store w) data of
        (createdEvent, s1) \<Rightarrow>
          (let info = \<lparr>pi_title = inp_title inp, pi_slug = inp_slug inp,
                       pi_amount = ev_amount createdEvent, pi_id = ev_id createdEvent\<rparr>;
               email = user_email u;
               username = or_empty (user_username u);
               payment = handlePayments env info email username;
               w1 = w\<lparr>store := s1, effects := effects w @ [ChargeCall info email username]\<rparr>
           in if truthy_str payment then (Inr \<lparr>paymentUid = or_empty payment\<rparr>, w1)
              else (case eventType_delete s1 (ev_id createdEvent) of
                      Inl e \<Rightarrow> (Inl e, w1)
                    | Inr s2 \<Rightarrow>
                        (Inl (TRPCError INTERNAL_SERVER_ERROR
                               (Message ''Payment not created due to internal server errror'')),
                         w1\<lparr>store := s2\<rparr>))))"

text \<open>Lines 87 to 134: the body of the \<open>try\<close> block.\<close>

definition try_create ::
  "handler_env \<Rightarrow> session_user \<Rightarrow> create_input \<Rightarrow> create_data \<Rightarrow> world \<Rightarrow>
     (exn + create_result) \<times> world" where
  "try_create env u inp data w =
     (case check_slug (store w) (user_id u) data of
        Inl e \<Rightarrow> (Inl e, w)
      | Inr data' \<Rightarrow> charge_or_rollback env u inp data' w)"

text \<open>Lines 135 to 137: \<open>catch (e) { throw new TRPCError({ code: "BAD_REQUEST", message: e }) }\<close>.\<close>

definition rethrow_bad_request :: "(exn + 'a) \<times> world \<Rightarrow> (exn + 'a) \<times> world" where
  "rethrow_bad_request r =
     (case r of
        (Inl e, w) \<Rightarrow> (Inl (TRPCError BAD_REQUEST (Cause e)), w)
      | (Inr v, w) \<Rightarrow> (Inr v, w))"

text \<open>Lines 25 to 138: the whole handler.\<close>

definition createHandler ::
  "handler_env \<Rightarrow> session_user \<Rightarrow> create_input \<Rightarrow> world \<Rightarrow> (exn + create_result) \<times> world" where
  "createHandler env u inp w =
     (let userId = user_id u;
          uid = env_uuid env
      in case parse_user_metadata (user_metadata u) of
           Inl e \<Rightarrow> (Inl e, w)
         | Inr dcd \<Rightarrow>
             (let locations =
                    resolve_locations (inp_locations inp) (daily_api_key env) dcd (apps_of env userId);
                  data = build_data inp uid userId locations
              in case attach_team (store w) userId (inp_teamId inp) (inp_schedulingType inp) data of
                   (Inl e, ws) \<Rightarrow> (Inl e, w\<lparr>effects := effects w @ ws\<rparr>)
                 | (Inr data', ws) \<Rightarrow>
                     rethrow_bad_request (try_create env u inp data' (w\<lparr>effects := effects w @ ws\<rparr>))))"

subsection \<open>Abstract contract\<close>

text \<open>
  What the spec (sections 3 and 4.4) promises of one request, stated on the store alone:
  the memberships are untouched; a failed request leaves the event-type rows as they
  were; a successful one appends exactly one unpaid row carrying the next id.
\<close>

definition create_contract :: "db \<Rightarrow> exn + create_result \<Rightarrow> db \<Rightarrow> bool" where
  "create_contract s r s' \<longleftrightarrow>
     memberships s' = memberships s \<and>
     (case r of
        Inl _ \<Rightarrow> eventTypes s' = eventTypes s
      | Inr _ \<Rightarrow>
          (case drop (length (eventTypes s)) (eventTypes s') of
             [e] \<Rightarrow> take (length (eventTypes s)) (eventTypes s') = eventTypes s \<and>
                    ev_id e = next_id s \<and> \<not> ev_paid e
           | _ \<Rightarrow> False))"

lemmas handler_defs [model_simps] =
  parse_user_metadata_def build_data_def check_slug_def charge_or_rollback_def try_create_def
  rethrow_bad_request_def createHandler_def

subsection \<open>Stages of the handler\<close>

abbreviation payload ::
  "handler_env \<Rightarrow> session_user \<Rightarrow> create_input \<Rightarrow> conferencing_app option \<Rightarrow> create_data" where
  "payload env u inp dcd \<equiv>
     build_data inp (env_uuid env) (user_id u)
       (resolve_locations (inp_locations inp) (daily_api_key env) dcd (apps_of env (user_id u)))"

abbreviation charge_info :: "create_input \<Rightarrow> create_data \<Rightarrow> db \<Rightarrow> payment_info" where
  "charge_info inp d s \<equiv>
     \<lparr>pi_title = inp_title inp, pi_slug = inp_slug inp, pi_amount = d_amount d, pi_id = next_id s\<rparr>"

abbreviation charge_call :: "session_user \<Rightarrow> create_input \<Rightarrow> create_data \<Rightarrow> db \<Rightarrow> effect" where
  "charge_call u inp d s \<equiv> ChargeCall (charge_info inp d s) (user_email u) (or_empty (user_username u))"

lemma parse_user_metadata_Inl: "parse_user_metadata md = Inl e \<Longrightarrow> e = ZodError"
  by (auto simp: parse_user_metadata_def split: user_metadata.splits)

lemma build_data_fields [simp]:
  "d_slug (build_data inp uid userId locs) = inp_slug inp"
  "d_amount (build_data inp uid userId locs) = inp_amount inp"
  "d_locations (build_data inp uid userId locs) = locs"
  "d_team (build_data inp uid userId locs) = None"
  "d_owner (build_data inp uid userId locs) = (if truthy_nat (inp_teamId inp) then None else Some userId)"
  "d_users (build_data inp uid userId locs) = (if inp_schedulingType inp = Some MANAGED then None else Some userId)"
  by (simp_all add: build_data_def)

lemma createHandler_parse_error:
  "parse_user_metadata (user_metadata u) = Inl e \<Longrightarrow> createHandler env u inp w = (Inl e, w)"
  by (simp add: createHandler_def)

lemma createHandler_parsed:
  "parse_user_metadata (user_metadata u) = Inr dcd \<Longrightarrow>
   createHandler env u inp w =
     (case attach_team (store w) (user_id u) (inp_teamId inp) (inp_schedulingType inp)
             (payload env u inp dcd) of
        (Inl e, ws) \<Rightarrow> (Inl e, w\<lparr>effects := effects w @ ws\<rparr>)
      | (Inr d, ws) \<Rightarrow> rethrow_bad_request (try_create env u inp d (w\<lparr>effects := effects w @ ws\<rparr>)))"
  by (simp add: createHandler_def Let_def)

lemma rethrow_bad_request_simps [simp]:
  "rethrow_bad_request (Inl e, w) = (Inl (TRPCError BAD_REQUEST (Cause e)), w)"
  "rethrow_bad_request (Inr v, w) = (Inr v, w)"
  by (simp_all add: rethrow_bad_request_def)

lemma try_create_duplicate:
  "eventType_findFirst (store w) (user_id u) (d_slug d) = Some x \<Longrightarrow>
   try_create env u inp d w =
     (Inl (TRPCError BAD_REQUEST (Message ''URL Slug already exists for given user.'')), w)"
  by (simp add: try_create_def check_slug_def)

lemma try_create_fresh:
  "eventType_findFirst (store w) (user_id u) (d_slug d) = None \<Longrightarrow>
   try_create env u inp d w = charge_or_rollback env u inp (d\<lparr>d_slug := ''''\<rparr>) w"
  by (simp add: try_create_def check_slug_def)

text \<open>
  The insert, the payment and the compensation in one equation: on a well-formed store the
  compensating delete always finds the row (\<open>create_then_delete\<close>), so the
  \<open>RecordNotFound\<close> branch is dead and a failed payment leaves the rows as they were.
\<close>

lemma charge_or_rollback_eq:
  assumes "wf_db (store w)"
  shows "charge_or_rollback env u inp d w =
    (let p = handlePayments env (charge_info inp d (store w)) (user_email u) (or_empty (user_username u));
         eff = effects w @ [charge_call u inp d (store w)]
     in if truthy_str p
        then (Inr \<lparr>paymentUid = or_empty p\<rparr>,
              w\<lparr>store := snd (eventType_create (store w) d), effects := eff\<rparr>)
        else (Inl (TRPCError INTERNAL_SERVER_ERROR
                     (Message ''Payment not created due to internal server errror'')),
              w\<lparr>store := (store w)\<lparr>next_id := Suc (next_id (store w))\<rparr>, effects := eff\<rparr>))"
proof -
  obtain e s1 where c: "eventType_create (store w) d = (e, s1)" by fastforce
  then have e: "e = row_of_data (next_id (store w)) d" by (rule eventType_create_row)
  from assms c have "eventType_delete s1 (ev_id e) = Inr ((store w)\<lparr>next_id := Suc (next_id (store w))\<rparr>)"
    by (rule create_then_delete)
  with c e show ?thesis
    by (simp add: charge_or_rollback_def Let_def)
qed


text \<open>
  Every run of the handler on a well-formed store ends in one of five ways: malformed
  metadata, refused authorization, a duplicate paid slug, a failed payment (the row is
  compensated), or a paid creation (one row appended).
\<close>

lemma createHandler_cases:
  assumes wf: "wf_db (store w)" and run: "createHandler env u inp w = (r, w')"
  obtains (zod) "r = Inl ZodError" "w' = w"
  | (unauthorized) "r = Inl (TRPCError UNAUTHORIZED NoMessage)" "store w' = store w"
      "effects w' = effects w @ [WarnNoPermission (user_id u)]"
  | (duplicate) dcd d x where "parse_user_metadata (user_metadata u) = Inr dcd"
      "attach_team (store w) (user_id u) (inp_teamId inp) (inp_schedulingType inp)
         (payload env u inp dcd) = (Inr d, [])"
      "eventType_findFirst (store w) (user_id u) (inp_slug inp) = Some x"
      "r = Inl (TRPCError BAD_REQUEST
                  (Cause (TRPCError BAD_REQUEST (Message ''URL Slug already exists for given user.''))))"
      "w' = w"
  | (unpaid) dcd d where "parse_user_metadata (user_metadata u) = Inr dcd"
      "attach_team (store w) (user_id u) (inp_teamId inp) (inp_schedulingType inp)
         (payload env u inp dcd) = (Inr d, [])"
      "eventType_findFirst (store w) (user_id u) (inp_slug inp) = None"
      "\<not> truthy_str (handlePayments env (charge_info inp d (store w)) (user_email u)
                      (or_empty (user_username u)))"
      "r = Inl (TRPCError BAD_REQUEST (Cause (TRPCError INTERNAL_SERVER_ERROR
                 (Message ''Payment not created due to internal server errror''))))"
      "store w' = (store w)\<lparr>next_id := Suc (next_id (store w))\<rparr>"
      "effects w' = effects w @ [charge_call u inp d (store w)]"
  | (paid) dcd d p where "parse_user_metadata (user_metadata u) = Inr dcd"
      "attach_team (store w) (user_id u) (inp_teamId inp) (inp_schedulingType inp)
         (payload env u inp dcd) = (Inr d, [])"
      "eventType_findFirst (store w) (user_id u) (inp_slug inp) = None"
      "handlePayments env (charge_info inp d (store w)) (user_email u) (or_empty (user_username u)) = p"
      "truthy_str p" "r = Inr \<lparr>paymentUid = or_empty p\<rparr>"
      "store w' = snd (eventType_create (store w) (d\<lparr>d_slug := ''''\<rparr>))"
      "effects w' = effects w @ [charge_call u inp d (store w)]"
proof (cases "parse_user_metadata (user_metadata u)")
  case (Inl e)
  with run have "r = Inl ZodError" "w' = w"
    by (auto simp: createHandler_parse_error dest: parse_user_metadata_Inl)
  then show ?thesis by (rule zod)
next
  case (Inr dcd)
  obtain res ws where att: "attach_team (store w) (user_id u) (inp_teamId inp) (inp_schedulingType inp)
      (payload env u inp dcd) = (res, ws)" by fastforce
  show ?thesis
  proof (cases res)
    case (Inl e)
    with att have "e = TRPCError UNAUTHORIZED NoMessage" "ws = [WarnNoPermission (user_id u)]"
      by (auto dest: attach_team_Inl)
    with run Inr att Inl show ?thesis
      by (intro unauthorized) (auto simp: createHandler_parsed)
  next
    case (Inr d)
    with att have ws: "ws = []" and slug: "d_slug d = inp_slug inp"
      by (auto dest: attach_team_Inr_team attach_team_Inr_fields)
    with run \<open>_ = Inr dcd\<close> att Inr
    have run': "rethrow_bad_request (try_create env u inp d w) = (r, w')"
      by (simp add: createHandler_parsed)
    show ?thesis
    proof (cases "eventType_findFirst (store w) (user_id u) (inp_slug inp)")
      case (Some x)
      with run' slug show ?thesis
        using \<open>_ = Inr dcd\<close> att Inr ws
        by (intro duplicate [of dcd d x]) (auto simp: try_create_duplicate)
    next
      case None
      let ?p = "handlePayments env (charge_info inp d (store w)) (user_email u) (or_empty (user_username u))"
      from run' None slug
      have run'': "rethrow_bad_request (charge_or_rollback env u inp (d\<lparr>d_slug := ''''\<rparr>) w) = (r, w')"
        by (simp add: try_create_fresh)
      show ?thesis
      proof (cases "truthy_str ?p")
        case True
        with run'' wf show ?thesis
          using \<open>_ = Inr dcd\<close> att Inr ws None
          by (intro paid [of dcd d ?p]) (auto simp: charge_or_rollback_eq Let_def)
      next
        case False
        with run'' wf show ?thesis
          using \<open>_ = Inr dcd\<close> att Inr ws None
          by (intro unpaid [of dcd d]) (auto simp: charge_or_rollback_eq Let_def)
      qed
    qed
  qed
qed

lemma createHandler_authorized:
  "parse_user_metadata (user_metadata u) = Inr dcd \<Longrightarrow>
   attach_team (store w) (user_id u) (inp_teamId inp) (inp_schedulingType inp)
     (payload env u inp dcd) = (Inr d, []) \<Longrightarrow>
   createHandler env u inp w = rethrow_bad_request (try_create env u inp d w)"
  by (simp add: createHandler_parsed)

subsection \<open>Properties of the handler\<close>

text \<open>
  C1. Refinement: every run of the handler on a well-formed store satisfies the abstract
  contract \<open>create_contract\<close> of the create-and-charge operation.
\<close>

theorem createHandler_refines_contract:
  assumes "wf_db (store w)" and "createHandler env u inp w = (r, w')"
  shows "create_contract (store w) r (store w')"
  using assms
proof (rule createHandler_cases)
  fix dcd d p
  assume "store w' = snd (eventType_create (store w) (d\<lparr>d_slug := ''''\<rparr>))" "r = Inr \<lparr>paymentUid = or_empty p\<rparr>"
  then show ?thesis
    by (simp add: create_contract_def eventType_create_def Let_def)
qed (auto simp: create_contract_def)

text \<open>
  C2. Spec property 3: a user without an accepted ADMIN or OWNER membership in the team
  cannot create a team event type: the handler logs the warning, throws
  \<open>UNAUTHORIZED\<close> (outside the \<open>try\<close>, so not rewrapped) and persists nothing.
\<close>

theorem createHandler_unauthorized:
  assumes "parse_user_metadata (user_metadata u) = Inr dcd"
    and "inp_teamId inp = Some t" and "t \<noteq> 0" and "inp_schedulingType inp = Some st"
    and "\<not> may_create_in_team (store w) (user_id u) t"
  shows "createHandler env u inp w =
           (Inl (TRPCError UNAUTHORIZED NoMessage),
            w\<lparr>effects := effects w @ [WarnNoPermission (user_id u)]\<rparr>)"
proof -
  from assms(5) have "\<not> has_admin_role (membership_findFirst (store w) (user_id u) t)"
    by (auto dest: has_admin_role_sound)
  with assms(1-4) show ?thesis
    by (simp add: createHandler_parsed attach_team_team)
qed

text \<open>
  C3. Spec property 4: when the user already owns a paid event type with the requested
  slug, the request fails with \<open>BAD_REQUEST\<close> (the slug error, rewrapped by the catch)
  and the world is unchanged.
\<close>

theorem createHandler_duplicate_slug:
  assumes "parse_user_metadata (user_metadata u) = Inr dcd"
    and "team_authorized (store w) (user_id u) (inp_teamId inp) (inp_schedulingType inp)"
    and "eventType_findFirst (store w) (user_id u) (inp_slug inp) = Some x"
  shows "createHandler env u inp w =
           (Inl (TRPCError BAD_REQUEST (Cause (TRPCError BAD_REQUEST
               (Message ''URL Slug already exists for given user.'')))), w)"
proof -
  obtain d where att: "attach_team (store w) (user_id u) (inp_teamId inp) (inp_schedulingType inp)
      (payload env u inp dcd) = (Inr d, [])"
    using assms(2) by (rule attach_team_authorized)
  then have "d_slug d = inp_slug inp" by (auto dest: attach_team_Inr_fields)
  with assms(1,3) att show ?thesis
    by (simp add: createHandler_authorized try_create_duplicate)
qed

text \<open>
  C4. Spec property 5, as the code behaves: when \<open>handlePayments\<close> returns a falsy value,
  the row just inserted is deleted, so the rows are as before (only the id counter has
  advanced); the \<open>INTERNAL_SERVER_ERROR\<close> thrown in the \<open>try\<close> block reaches the
  caller as \<open>BAD_REQUEST\<close> with the internal error as its message.
\<close>

theorem createHandler_payment_failure:
  assumes "wf_db (store w)"
    and "parse_user_metadata (user_metadata u) = Inr dcd"
    and "team_authorized (store w) (user_id u) (inp_teamId inp) (inp_schedulingType inp)"
    and "eventType_findFirst (store w) (user_id u) (inp_slug inp) = None"
    and "\<not> truthy_str (handlePayments env (charge_info inp (payload env u inp dcd) (store w))
                        (user_email u) (or_empty (user_username u)))"
  shows "createHandler env u inp w =
           (Inl (TRPCError BAD_REQUEST (Cause (TRPCError INTERNAL_SERVER_ERROR
               (Message ''Payment not created due to internal server errror'')))),
            w\<lparr>store := (store w)\<lparr>next_id := Suc (next_id (store w))\<rparr>,
              effects := effects w @ [charge_call u inp (payload env u inp dcd) (store w)]\<rparr>)"
proof -
  obtain d where att: "attach_team (store w) (user_id u) (inp_teamId inp) (inp_schedulingType inp)
      (payload env u inp dcd) = (Inr d, [])"
    using assms(3) by (rule attach_team_authorized)
  then have "d_slug d = inp_slug inp" "d_amount d = inp_amount inp"
    by (auto dest: attach_team_Inr_fields)
  with assms(1,2,4,5) att show ?thesis
    by (simp add: createHandler_authorized try_create_fresh charge_or_rollback_eq Let_def)
qed

text \<open>
  C5. Spec property 6 and the shape of the stored row: when the payment returns a truthy
  reference, the handler returns it as \<open>paymentUid\<close> and the store gains exactly one row,
  with the next id, an empty slug (line 99 clears it), \<open>paid\<close> false, the resolved
  locations, an owner unless a team id is given, and the user connected unless the type is
  managed.
\<close>

theorem createHandler_success:
  assumes "wf_db (store w)"
    and "parse_user_metadata (user_metadata u) = Inr dcd"
    and "team_authorized (store w) (user_id u) (inp_teamId inp) (inp_schedulingType inp)"
    and "eventType_findFirst (store w) (user_id u) (inp_slug inp) = None"
    and "handlePayments env (charge_info inp (payload env u inp dcd) (store w))
           (user_email u) (or_empty (user_username u)) = p"
    and "truthy_str p"
  shows "\<exists>e. createHandler env u inp w =
             (Inr \<lparr>paymentUid = or_empty p\<rparr>,
              w\<lparr>store := (store w)\<lparr>eventTypes := eventTypes (store w) @ [e],
                                    next_id := Suc (next_id (store w))\<rparr>,
                effects := effects w @ [charge_call u inp (payload env u inp dcd) (store w)]\<rparr>)
           \<and> ev_id e = next_id (store w) \<and> ev_slug e = [] \<and> \<not> ev_paid e
           \<and> ev_locations e =
               resolve_locations (inp_locations inp) (daily_api_key env) dcd (apps_of env (user_id u))
           \<and> ev_owner e = (if truthy_nat (inp_teamId inp) then None else Some (user_id u))
           \<and> ev_users e = (if inp_schedulingType inp = Some MANAGED then [] else [user_id u])"
proof -
  obtain d where att: "attach_team (store w) (user_id u) (inp_teamId inp) (inp_schedulingType inp)
      (payload env u inp dcd) = (Inr d, [])"
    using assms(3) by (rule attach_team_authorized)
  then have f: "d_slug d = inp_slug inp" "d_amount d = inp_amount inp"
    "d_owner d = (if truthy_nat (inp_teamId inp) then None else Some (user_id u))"
    "d_users d = (if inp_schedulingType inp = Some MANAGED then None else Some (user_id u))"
    "d_locations d =
       resolve_locations (inp_locations inp) (daily_api_key env) dcd (apps_of env (user_id u))"
    by (auto dest!: attach_team_Inr_fields)
  let ?e = "row_of_data (next_id (store w)) (d\<lparr>d_slug := ''''\<rparr>)"
  have "createHandler env u inp w =
          (Inr \<lparr>paymentUid = or_empty p\<rparr>,
           w\<lparr>store := (store w)\<lparr>eventTypes := eventTypes (store w) @ [?e],
                                 next_id := Suc (next_id (store w))\<rparr>,
             effects := effects w @ [charge_call u inp (payload env u inp dcd) (store w)]\<rparr>)"
    using assms(1,2,4,5,6) att f
    by (simp add: createHandler_authorized try_create_fresh charge_or_rollback_eq
        eventType_create_def Let_def)
  moreover have "ev_users ?e = (if inp_schedulingType inp = Some MANAGED then [] else [user_id u])"
    using f by simp
  ultimately show ?thesis
    using f by (intro exI [of _ ?e]) simp
qed

text \<open>
  C6. Error taxonomy as the code has it: the caller only ever sees a \<open>ZodError\<close> from the
  metadata parse, \<open>UNAUTHORIZED\<close> from the team check, or \<open>BAD_REQUEST\<close> wrapping
  whatever the \<open>try\<close> block threw. \<open>INTERNAL_SERVER_ERROR\<close> never reaches the caller.
\<close>

theorem createHandler_error_kinds:
  assumes "createHandler env u inp w = (Inl e, w')"
  shows "e = ZodError \<or> e = TRPCError UNAUTHORIZED NoMessage \<or>
         (\<exists>c. e = TRPCError BAD_REQUEST (Cause c))"
  using assms
  by (auto simp: createHandler_def Let_def rethrow_bad_request_def
      dest: parse_user_metadata_Inl attach_team_Inl
      split: sum.splits prod.splits)

text \<open>
  C7. A row the handler creates is connected to a team only if the user holds an accepted
  ADMIN or OWNER membership in that team.
\<close>

theorem createHandler_team_requires_role:
  assumes "wf_db (store w)" and "createHandler env u inp w = (Inr r, w')"
    and "e \<in> set (eventTypes (store w'))" and "e \<notin> set (eventTypes (store w))"
    and "ev_team e = Some t"
  shows "may_create_in_team (store w) (user_id u) t"
  using assms(1,2)
proof (rule createHandler_cases)
  fix dcd d p
  assume att: "attach_team (store w) (user_id u) (inp_teamId inp) (inp_schedulingType inp)
      (payload env u inp dcd) = (Inr d, [])"
    and st: "store w' = snd (eventType_create (store w) (d\<lparr>d_slug := ''''\<rparr>))"
  from st assms(3,4) have "e = row_of_data (next_id (store w)) (d\<lparr>d_slug := ''''\<rparr>)"
    by (auto simp: eventType_create_def Let_def)
  with assms(5) have "d_team d = Some t" by simp
  with att have "has_admin_role (membership_findFirst (store w) (user_id u) t)"
    by (auto dest: attach_team_Inr_team)
  then show ?thesis by (rule has_admin_role_sound)
qed (use assms(2) in auto)

text \<open>
  C8. Observable effects and their order: a request appends at most one effect to the
  log. It is the permission warning, or one call of \<open>handlePayments\<close>. That call
  carries the id of the row inserted just before it (the next id), and the caller's title
  and original slug.
\<close>

theorem createHandler_effects:
  assumes "wf_db (store w)" and "createHandler env u inp w = (r, w')"
  shows "\<exists>new. effects w' = effects w @ new \<and>
           (new = [] \<or> new = [WarnNoPermission (user_id u)] \<or>
            (\<exists>i. new = [ChargeCall i (user_email u) (or_empty (user_username u))] \<and>
                 pi_id i = next_id (store w) \<and> pi_slug i = inp_slug inp \<and> pi_title i = inp_title inp))"
  using assms by (rule createHandler_cases) auto

text \<open>
  C9. A team id without a scheduling type skips the team check altogether and creates a
  row connected to neither an owner nor a team (only the user is connected).
\<close>

theorem createHandler_team_without_scheduling_type:
  assumes "wf_db (store w)"
    and "parse_user_metadata (user_metadata u) = Inr dcd"
    and "inp_teamId inp = Some t" and "t \<noteq> 0" and "inp_schedulingType inp = None"
    and "eventType_findFirst (store w) (user_id u) (inp_slug inp) = None"
    and "truthy_str (handlePayments env (charge_info inp (payload env u inp dcd) (store w))
                       (user_email u) (or_empty (user_username u)))"
  shows "\<exists>r w' e. createHandler env u inp w = (Inr r, w') \<and>
           eventTypes (store w') = eventTypes (store w) @ [e] \<and>
           ev_owner e = None \<and> ev_team e = None \<and> ev_users e = [user_id u]"
proof -
  have att: "attach_team (store w) (user_id u) (inp_teamId inp) (inp_schedulingType inp)
      (payload env u inp dcd) = (Inr (payload env u inp dcd), [])"
    using assms(5) by (simp add: attach_team_no_team)
  let ?e = "row_of_data (next_id (store w)) ((payload env u inp dcd)\<lparr>d_slug := ''''\<rparr>)"
  have "\<exists>r w'. createHandler env u inp w = (Inr r, w') \<and>
          eventTypes (store w') = eventTypes (store w) @ [?e]"
    using assms(1,2,6,7) att
    by (simp add: createHandler_authorized try_create_fresh charge_or_rollback_eq
        eventType_create_def Let_def)
  moreover have "ev_owner ?e = None \<and> ev_team ?e = None \<and> ev_users ?e = [user_id u]"
    using assms(3,4,5) by simp
  ultimately show ?thesis by blast
qed

end
