(* ===== verification/Faults.thy ===== *)
theory Faults
  imports CreateHandler
begin

text \<open>
  Exceptions thrown by the collaborators \<open>createHandler\<close> awaits. Each awaited call of
  create.handler.ts can reject: \<open>getAppKeysFromSlug\<close> (line 32), \<open>getUsersCredentials\<close>
  (line 45), \<open>ctx.prisma.membership.findFirst\<close> (line 66), \<open>prisma.eventType.findFirst\<close>
  (line 88), \<open>ctx.prisma.eventType.create\<close> (line 102), \<open>handlePayments\<close> (line 109) and
  \<open>ctx.prisma.eventType.delete\<close> (line 121). A record \<open>faults\<close> says which of them throw,
  and with what; each is called at most once per request, so one optional exception per
  call site is enough. \<open>createHandler_exc\<close> is the handler with a rejection at each await,
  in the code's order. Only the calls inside the \<open>try\<close> block (lines 87 to 134) reach the
  \<open>catch\<close>; the others propagate as they are.
\<close>

subsection \<open>Faults of the awaited calls\<close>

record faults =
  f_appKeys :: "exn option"
  f_credentials :: "exn option"
  f_membership :: "exn option"
  f_slugLookup :: "exn option"
  f_create :: "exn option"
  f_payment :: "exn option"
  f_delete :: "exn option"

definition no_faults :: faults where
  "no_faults = \<lparr>f_appKeys = None, f_credentials = None, f_membership = None, f_slugLookup = None,
                f_create = None, f_payment = None, f_delete = None\<rparr>"

subsection \<open>The handler with rejecting awaits\<close>

text \<open>Line 44: \<open>defaultConferencingData && defaultConferencingData.appSlug !== "daily-video"\<close>.\<close>

definition uses_credentials :: "conferencing_app option \<Rightarrow> bool" where
  "uses_credentials dcd = (case dcd of None \<Rightarrow> False | Some c \<Rightarrow> appSlug c \<noteq> ''daily-video'')"

text \<open>
  Lines 102 to 134 with their three awaits. A rejection of the insert leaves the store
  alone; one of \<open>handlePayments\<close> or of the delete comes after the insert.
\<close>

definition charge_or_rollback_exc ::
  "handler_env \<Rightarrow> faults \<Rightarrow> session_user \<Rightarrow> create_input \<Rightarrow> create_data \<Rightarrow> world \<Rightarrow>
     (exn + create_result) \<times> world" where
  "charge_or_rollback_exc env f u inp data w =
     (case f_create f of
        Some ex \<Rightarrow> (Inl ex, w)
      | None \<Rightarrow>
          (case eventType_create (store w) data of
             (createdEvent, s1) \<Rightarrow>
               (let info = \<lparr>pi_title = inp_title inp, pi_slug = inp_slug inp,
                            pi_amount = ev_amount createdEvent, pi_id = ev_id createdEvent\<rparr>;
                    email = user_email u;
                    username = or_empty (user_username u);
                    w1 = w\<lparr>store := s1, effects := effects w @ [ChargeCall info email username]\<rparr>
                in case f_payment f of
                     Some ex \<Rightarrow> (Inl ex, w1)
                   | None \<Rightarrow>
                       (let payment = handlePayments env info email username
                        in if truthy_str payment then (Inr \<lparr>paymentUid = or_empty payment\<rparr>, w1)
                           else (case f_delete f of
                                   Some ex \<Rightarrow> (Inl ex, w1)
                                 | None \<Rightarrow>
                                     (case eventType_delete s1 (ev_id createdEvent) of
                                        Inl e \<Rightarrow> (Inl e, w1)
                                      | Inr s2 \<Rightarrow>
                                          (Inl (TRPCError INTERNAL_SERVER_ERROR
                                                 (Message ''Payment not created due to internal server errror'')),
                                           w1\<lparr>store := s2\<rparr>)))))))"

text \<open>Lines 87 to 134: the slug lookup may reject before the check of lines 96 to 100.\<close>

definition try_create_exc ::
  "handler_env \<Rightarrow> faults \<Rightarrow> session_user \<Rightarrow> create_input \<Rightarrow> create_data \<Rightarrow> world \<Rightarrow>
     (exn + create_result) \<times> world" where
  "try_create_exc env f u inp data w =
     (case f_slugLookup f of
        Some ex \<Rightarrow> (Inl ex, w)
      | None \<Rightarrow>
          (case check_slug (store w) (user_id u) data of
             Inl e \<Rightarrow> (Inl e, w)
           | Inr data' \<Rightarrow> charge_or_rollback_exc env f u inp data' w))"

text \<open>
  Lines 25 to 138. The app keys are fetched after the metadata parse (line 32), the
  credentials only on the branch of line 44, the membership only under the guard of
  line 65; none of them is inside the \<open>try\<close> block.
\<close>

definition createHandler_exc ::
  "handler_env \<Rightarrow> faults \<Rightarrow> session_user \<Rightarrow> create_input \<Rightarrow> world \<Rightarrow>
     (exn + create_result) \<times> world" where
  "createHandler_exc env f u inp w =
     (let userId = user_id u;
          uid = env_uuid env
      in case parse_user_metadata (user_metadata u) of
           Inl e \<Rightarrow> (Inl e, w)
         | Inr dcd \<Rightarrow>
             (case f_appKeys f of
                Some ex \<Rightarrow> (Inl ex, w)
              | None \<Rightarrow>
                  (case (if uses_credentials dcd then f_credentials f else None) of
                     Some ex \<Rightarrow> (Inl ex, w)
                   | None \<Rightarrow>
                       (let locations =
                              resolve_locations (inp_locations inp) (daily_api_key env) dcd (apps_of env userId);
                            data = build_data inp uid userId locations
                        in case (if truthy_nat (inp_teamId inp) \<and> inp_schedulingType inp \<noteq> None
                                 then f_membership f else None) of
                             Some ex \<Rightarrow> (Inl ex, w)
                           | None \<Rightarrow>
                               (case attach_team (store w) userId (inp_teamId inp) (inp_schedulingType inp) data of
                                  (Inl e, ws) \<Rightarrow> (Inl e, w\<lparr>effects := effects w @ ws\<rparr>)
                                | (Inr data', ws) \<Rightarrow>
                                    rethrow_bad_request
                                      (try_create_exc env f u inp data' (w\<lparr>effects := effects w @ ws\<rparr>)))))))"

text \<open>
  The first exception thrown before the \<open>try\<close> block, if any: the app keys, then the
  credentials when line 44 takes its first branch, then the membership lookup when the
  guard of line 65 holds.
\<close>

definition pre_try_fault :: "faults \<Rightarrow> conferencing_app option \<Rightarrow> create_input \<Rightarrow> exn option" where
  "pre_try_fault f dcd inp =
     (case f_appKeys f of
        Some ex \<Rightarrow> Some ex
      | None \<Rightarrow>
          (case (if uses_credentials dcd then f_credentials f else None) of
             Some ex \<Rightarrow> Some ex
           | None \<Rightarrow>
               (if truthy_nat (inp_teamId inp) \<and> inp_schedulingType inp \<noteq> None
                then f_membership f else None)))"

text \<open>
  What a run of the handler can leave in the store: the store itself, the store with only
  the id counter advanced (insert and compensating delete), or the store with one inserted
  row whose slug was cleared; a failed run keeps that row only when \<open>handlePayments\<close> or
  the delete threw.
\<close>

definition fault_outcome :: "faults \<Rightarrow> db \<Rightarrow> exn + create_result \<Rightarrow> db \<Rightarrow> bool" where
  "fault_outcome f s r s' \<longleftrightarrow>
     s' = s \<or> s' = s\<lparr>next_id := Suc (next_id s)\<rparr> \<or>
     (\<exists>d. d_slug d = [] \<and> s' = snd (eventType_create s d) \<and>
          (isl r \<longrightarrow> f_payment f \<noteq> None \<or> f_delete f \<noteq> None))"

lemmas fault_defs [model_simps] =
  charge_or_rollback_exc_def try_create_exc_def createHandler_exc_def

subsection \<open>Lemmas\<close>

lemma no_faults_simps [simp]:
  "f_appKeys no_faults = None" "f_credentials no_faults = None" "f_membership no_faults = None"
  "f_slugLookup no_faults = None" "f_create no_faults = None" "f_payment no_faults = None"
  "f_delete no_faults = None"
  by (simp_all add: no_faults_def)

text \<open>
  After a successful metadata parse: the first exception before the \<open>try\<close> block, if
  any, is the result; otherwise the team check and the \<open>try\<close> block run.
\<close>

lemma createHandler_exc_Inr:
  "parse_user_metadata (user_metadata u) = Inr dcd \<Longrightarrow>
   createHandler_exc env f u inp w =
     (case pre_try_fault f dcd inp of
        Some ex \<Rightarrow> (Inl ex, w)
      | None \<Rightarrow>
          (case attach_team (store w) (user_id u) (inp_teamId inp) (inp_schedulingType inp)
                  (payload env u inp dcd) of
             (Inl e, ws) \<Rightarrow> (Inl e, w\<lparr>effects := effects w @ ws\<rparr>)
           | (Inr d, ws) \<Rightarrow> rethrow_bad_request (try_create_exc env f u inp d (w\<lparr>effects := effects w @ ws\<rparr>))))"
  by (auto simp: createHandler_exc_def pre_try_fault_def Let_def split: option.splits if_splits)

lemma createHandler_exc_parsed:
  "parse_user_metadata (user_metadata u) = Inr dcd \<Longrightarrow> pre_try_fault f dcd inp = None \<Longrightarrow>
   createHandler_exc env f u inp w =
     (case attach_team (store w) (user_id u) (inp_teamId inp) (inp_schedulingType inp)
             (payload env u inp dcd) of
        (Inl e, ws) \<Rightarrow> (Inl e, w\<lparr>effects := effects w @ ws\<rparr>)
      | (Inr d, ws) \<Rightarrow> rethrow_bad_request (try_create_exc env f u inp d (w\<lparr>effects := effects w @ ws\<rparr>)))"
  by (simp add: createHandler_exc_Inr)

lemma check_slug_Inr: "check_slug s u d = Inr d' \<Longrightarrow> d' = d\<lparr>d_slug := []\<rparr>"
  by (simp add: check_slug_def split: option.splits)

lemma charge_or_rollback_exc_store:
  assumes wf: "wf_db (store w)" and run: "charge_or_rollback_exc env f u inp d w = (r, w')"
    and slug: "d_slug d = []"
  shows "fault_outcome f (store w) r (store w') \<and> length (effects w') \<le> Suc (length (effects w))"
proof -
  obtain e s1 where c: "eventType_create (store w) d = (e, s1)" by fastforce
  from wf c have del: "eventType_delete s1 (ev_id e) = Inr ((store w)\<lparr>next_id := Suc (next_id (store w))\<rparr>)"
    by (rule create_then_delete)
  have s1: "s1 = snd (eventType_create (store w) d)" using c by simp
  consider (failed_insert) "store w' = store w"
    | (kept) "store w' = s1" "isl r \<longrightarrow> f_payment f \<noteq> None \<or> f_delete f \<noteq> None"
    | (rolled_back) "store w' = (store w)\<lparr>next_id := Suc (next_id (store w))\<rparr>"
    using run c del
    by (auto simp: charge_or_rollback_exc_def Let_def split: option.splits if_splits)
  then have "fault_outcome f (store w) r (store w')"
  proof cases
    case kept
    with s1 slug show ?thesis unfolding fault_outcome_def by blast
  qed (simp_all add: fault_outcome_def)
  moreover from run c del have "length (effects w') \<le> Suc (length (effects w))"
    by (auto simp: charge_or_rollback_exc_def Let_def split: option.splits if_splits)
  ultimately show ?thesis ..
qed

lemma try_create_exc_store:
  assumes wf: "wf_db (store w)" and run: "try_create_exc env f u inp d w = (r, w')"
  shows "fault_outcome f (store w) r (store w') \<and> length (effects w') \<le> Suc (length (effects w))"
proof (cases "f_slugLookup f = None \<and> (\<exists>d'. check_slug (store w) (user_id u) d = Inr d')")
  case True
  then obtain d' where n: "f_slugLookup f = None" and c: "check_slug (store w) (user_id u) d = Inr d'"
    by blast
  from check_slug_Inr [OF c] have "d_slug d' = []" by simp
  moreover from run n c have "charge_or_rollback_exc env f u inp d' w = (r, w')"
    by (simp add: try_create_exc_def)
  ultimately show ?thesis using wf by (intro charge_or_rollback_exc_store)
next
  case False
  with run have "w' = w"
    by (auto simp: try_create_exc_def split: option.splits sum.splits)
  then show ?thesis by (simp add: fault_outcome_def)
qed

lemma fault_outcome_rethrow:
  "fault_outcome f s r s' \<Longrightarrow> rethrow_bad_request (r, w) = (r', w') \<Longrightarrow> fault_outcome f s r' s'"
  by (cases r) (auto simp: fault_outcome_def)

lemma createHandler_exc_store:
  assumes wf: "wf_db (store w)" and run: "createHandler_exc env f u inp w = (r, w')"
  shows "fault_outcome f (store w) r (store w') \<and> length (effects w') \<le> Suc (length (effects w))"
proof (cases "parse_user_metadata (user_metadata u)")
  case (Inl e)
  with run show ?thesis by (simp add: createHandler_exc_def fault_outcome_def)
next
  case (Inr dcd)
  show ?thesis
  proof (cases "pre_try_fault f dcd inp")
    case (Some ex)
    with Inr run show ?thesis by (simp add: createHandler_exc_Inr fault_outcome_def)
  next
    case None
    obtain res ws where att: "attach_team (store w) (user_id u) (inp_teamId inp) (inp_schedulingType inp)
        (payload env u inp dcd) = (res, ws)" by fastforce
    show ?thesis
    proof (cases res)
      case (Inl e)
      with att have "ws = [WarnNoPermission (user_id u)]" by (auto dest: attach_team_Inl)
      with Inr None att Inl run show ?thesis
        by (auto simp: createHandler_exc_parsed fault_outcome_def)
    next
      case (Inr d)
      with att have ws: "ws = []" by (auto dest: attach_team_Inr_team)
      obtain r0 w0 where t: "try_create_exc env f u inp d w = (r0, w0)" by fastforce
      with \<open>_ = Inr dcd\<close> None att Inr ws run
      have rr: "rethrow_bad_request (r0, w0) = (r, w')"
        by (simp add: createHandler_exc_parsed)
      then have "w' = w0" by (cases r0) auto
      with try_create_exc_store [OF wf t] rr show ?thesis
        by (auto intro: fault_outcome_rethrow)
    qed
  qed
qed

lemma fault_outcome_wf:
  "wf_db s \<Longrightarrow> fault_outcome f s r s' \<Longrightarrow> wf_db s'"
  unfolding fault_outcome_def by (metis prod.collapse wf_db_create wf_db_bump)

subsection \<open>Properties under rejecting collaborators\<close>

text \<open>
  C19. An exception of a collaborator awaited before the \<open>try\<close> block
  (\<open>getAppKeysFromSlug\<close>, \<open>getUsersCredentials\<close>, \<open>membership.findFirst\<close>) reaches the
  caller unchanged, not rewrapped as \<open>BAD_REQUEST\<close>, and the world is untouched. The spec
  (section 4.3) says every unexpected error of steps 1 to 8 is re-surfaced as
  \<open>BAD_REQUEST\<close>; the code's \<open>catch\<close> only covers steps 5 to 8.
\<close>

theorem createHandler_exc_pre_try_unwrapped:
  assumes "parse_user_metadata (user_metadata u) = Inr dcd" and "pre_try_fault f dcd inp = Some ex"
  shows "createHandler_exc env f u inp w = (Inl ex, w)"
  using assms by (simp add: createHandler_exc_Inr)

text \<open>
  C20. Error taxonomy with rejecting collaborators: the caller sees a \<open>ZodError\<close>,
  \<open>UNAUTHORIZED\<close>, \<open>BAD_REQUEST\<close> wrapping what the \<open>try\<close> block threw, or the very
  exception of one of the three collaborators awaited before the \<open>try\<close> block.
\<close>

theorem createHandler_exc_error_kinds:
  assumes "createHandler_exc env f u inp w = (Inl e, w')"
  shows "e = ZodError \<or> e = TRPCError UNAUTHORIZED NoMessage \<or>
         (\<exists>c. e = TRPCError BAD_REQUEST (Cause c)) \<or>
         Some e \<in> {f_appKeys f, f_credentials f, f_membership f}"
  using assms
  by (auto simp: createHandler_exc_def Let_def rethrow_bad_request_def
      dest: parse_user_metadata_Inl attach_team_Inl
      split: sum.splits prod.splits option.splits if_splits)

text \<open>
  C21. When \<open>handlePayments\<close> throws instead of returning a falsy value, the compensating
  delete is skipped: the catch only rewraps the exception, and the unpaid row inserted at
  line 102 stays in the store. The spec (section 4.4) only considers a falsy result.
\<close>

theorem createHandler_exc_payment_throws:
  assumes "parse_user_metadata (user_metadata u) = Inr dcd" and "pre_try_fault f dcd inp = None"
    and "team_authorized (store w) (user_id u) (inp_teamId inp) (inp_schedulingType inp)"
    and "f_slugLookup f = None" and "eventType_findFirst (store w) (user_id u) (inp_slug inp) = None"
    and "f_create f = None" and "f_payment f = Some ex"
  shows "\<exists>e. createHandler_exc env f u inp w =
             (Inl (TRPCError BAD_REQUEST (Cause ex)),
              w\<lparr>store := (store w)\<lparr>eventTypes := eventTypes (store w) @ [e],
                                    next_id := Suc (next_id (store w))\<rparr>,
                effects := effects w @ [charge_call u inp (payload env u inp dcd) (store w)]\<rparr>)
           \<and> ev_id e = next_id (store w) \<and> \<not> ev_paid e"
proof -
  obtain d where att: "attach_team (store w) (user_id u) (inp_teamId inp) (inp_schedulingType inp)
      (payload env u inp dcd) = (Inr d, [])"
    using assms(3) by (rule attach_team_authorized)
  then have f: "d_slug d = inp_slug inp" "d_amount d = inp_amount inp"
    by (auto dest: attach_team_Inr_fields)
  let ?e = "row_of_data (next_id (store w)) (d\<lparr>d_slug := []\<rparr>)"
  have "createHandler_exc env f u inp w =
          (Inl (TRPCError BAD_REQUEST (Cause ex)),
           w\<lparr>store := (store w)\<lparr>eventTypes := eventTypes (store w) @ [?e],
                                 next_id := Suc (next_id (store w))\<rparr>,
             effects := effects w @ [charge_call u inp (payload env u inp dcd) (store w)]\<rparr>)"
    using assms(1,2,4-7) att f
    by (simp add: createHandler_exc_parsed try_create_exc_def charge_or_rollback_exc_def
        check_slug_def eventType_create_def Let_def)
  then show ?thesis by (intro exI [of _ ?e]) simp
qed

text \<open>
  C22. When the payment is falsy but the compensating delete throws, the row stays and
  the caller gets \<open>BAD_REQUEST\<close> wrapping the delete's exception, not the
  \<open>INTERNAL_SERVER_ERROR\<close> of line 125.
\<close>

theorem createHandler_exc_delete_throws:
  assumes "parse_user_metadata (user_metadata u) = Inr dcd" and "pre_try_fault f dcd inp = None"
    and "team_authorized (store w) (user_id u) (inp_teamId inp) (inp_schedulingType inp)"
    and "f_slugLookup f = None" and "eventType_findFirst (store w) (user_id u) (inp_slug inp) = None"
    and "f_create f = None" and "f_payment f = None"
    and "\<not> truthy_str (handlePayments env (charge_info inp (payload env u inp dcd) (store w))
                        (user_email u) (or_empty (user_username u)))"
    and "f_delete f = Some ex"
  shows "\<exists>e. createHandler_exc env f u inp w =
             (Inl (TRPCError BAD_REQUEST (Cause ex)),
              w\<lparr>store := (store w)\<lparr>eventTypes := eventTypes (store w) @ [e],
                                    next_id := Suc (next_id (store w))\<rparr>,
                effects := effects w @ [charge_call u inp (payload env u inp dcd) (store w)]\<rparr>)
           \<and> ev_id e = next_id (store w) \<and> \<not> ev_paid e"
proof -
  obtain d where att: "attach_team (store w) (user_id u) (inp_teamId inp) (inp_schedulingType inp)
      (payload env u inp dcd) = (Inr d, [])"
    using assms(3) by (rule attach_team_authorized)
  then have f: "d_slug d = inp_slug inp" "d_amount d = inp_amount inp"
    by (auto dest: attach_team_Inr_fields)
  let ?e = "row_of_data (next_id (store w)) (d\<lparr>d_slug := []\<rparr>)"
  have "createHandler_exc env f u inp w =
          (Inl (TRPCError BAD_REQUEST (Cause ex)),
           w\<lparr>store := (store w)\<lparr>eventTypes := eventTypes (store w) @ [?e],
                                 next_id := Suc (next_id (store w))\<rparr>,
             effects := effects w @ [charge_call u inp (payload env u inp dcd) (store w)]\<rparr>)"
    using assms(1,2,4-9) att f
    by (simp add: createHandler_exc_parsed try_create_exc_def charge_or_rollback_exc_def
        check_slug_def eventType_create_def Let_def)
  then show ?thesis by (intro exI [of _ ?e]) simp
qed

text \<open>
  C23. Bounds of one request, whatever its collaborators throw: from a well-formed store
  the store stays well-formed, memberships are unchanged, the id counter advances by at
  most one, the existing rows are kept in order, at most one row is added (unpaid, with
  the cleared slug), and at most one effect is logged.
\<close>

theorem createHandler_exc_bounds:
  assumes "wf_db (store w)" and "createHandler_exc env f u inp w = (r, w')"
  shows "wf_db (store w') \<and> memberships (store w') = memberships (store w) \<and>
         next_id (store w) \<le> next_id (store w') \<and> next_id (store w') \<le> Suc (next_id (store w)) \<and>
         take (length (eventTypes (store w))) (eventTypes (store w')) = eventTypes (store w) \<and>
         length (eventTypes (store w')) \<le> Suc (length (eventTypes (store w))) \<and>
         list_all (\<lambda>e. \<not> ev_paid e \<and> ev_slug e = [])
           (drop (length (eventTypes (store w))) (eventTypes (store w'))) \<and>
         length (effects w') \<le> Suc (length (effects w))"
proof -
  from createHandler_exc_store [OF assms]
  have o: "fault_outcome f (store w) r (store w')" and eff: "length (effects w') \<le> Suc (length (effects w))"
    by auto
  from assms(1) o have "wf_db (store w')" by (rule fault_outcome_wf)
  with o eff show ?thesis
    by (auto simp: fault_outcome_def eventType_create_def Let_def)
qed

text \<open>
  C24. A failed request leaves a row behind only when \<open>handlePayments\<close> or the
  compensating delete threw: every other failure, rejected or not, keeps the rows.
\<close>

theorem createHandler_exc_orphan_cause:
  assumes "wf_db (store w)" and "createHandler_exc env f u inp w = (Inl e, w')"
    and "eventTypes (store w') \<noteq> eventTypes (store w)"
  shows "f_payment f \<noteq> None \<or> f_delete f \<noteq> None"
proof -
  from createHandler_exc_store [OF assms(1,2)] have "fault_outcome f (store w) (Inl e) (store w')"
    by simp
  with assms(3) show ?thesis by (auto simp: fault_outcome_def)
qed

end
