(* ===== verification/SamlIdp.thy ===== *)
theory SamlIdp
  imports Prelude
begin

text \<open>
  The SSO callback view \<open>SamlIdp\<close> (apps/web/modules/auth/saml-idp/saml-idp-view.tsx).
  The component reads the URL search parameters and registers one effect with the
  dependency array \<open>[]\<close>. The effect reads \<open>code\<close> and calls
  \<open>signIn("saml-idp", { callbackUrl: "/", code })\<close>; the view renders nothing.
  The model has the effect's body (\<open>saml_effect\<close>), its dependency array
  (\<open>SamlIdp_deps\<close>), and the part of React's effect scheduling this component relies on:
  after a render is committed, an effect runs if it is the mount's first commit, if it has
  no dependency array, or if an entry of the array changed since the last commit.
  The lifecycle is a step function over mount, re-render, navigation and unmount events;
  the log of \<open>signIn\<close> calls is part of the state. Reachable states are an inductive
  predicate, and the invariant \<open>view_inv\<close> is proved by rule induction on it.
\<close>

subsection \<open>Data\<close>

text \<open>\<open>useCompatSearchParams()\<close>: absent (\<open>null\<close>) or the list of query pairs.\<close>

type_synonym search_params = "(string \<times> string) list option"

record signin_call =
  provider :: string
  callbackUrl :: string
  code :: "string option"

record view_state =
  mounted :: bool
  committed :: bool
  last_deps :: "search_params list option"
  params :: search_params
  signins :: "signin_call list"

datatype view_event =
    Mount search_params
  | Rerender
  | Navigate search_params
  | Unmount

subsection \<open>The component\<close>

text \<open>
  Line 13: \<open>searchParams?.get("code")\<close>. \<open>URLSearchParams.get\<close> answers the first
  value with that name, \<open>null\<close> if there is none.
\<close>

definition search_get :: "search_params \<Rightarrow> string \<Rightarrow> string option" where
  "search_get sp k = (case sp of None \<Rightarrow> None | Some ps \<Rightarrow> map_of ps k)"

text \<open>Lines 12 to 18: the body of the effect, the one call of \<open>signIn\<close>.\<close>

definition saml_effect :: "search_params \<Rightarrow> signin_call" where
  "saml_effect sp = \<lparr>provider = ''saml-idp'', callbackUrl = ''/'', code = search_get sp ''code''\<rparr>"

text \<open>Line 20: the dependency array \<open>[]\<close> (no dependency, whatever the parameters).\<close>

definition SamlIdp_deps :: "search_params \<Rightarrow> search_params list option" where
  "SamlIdp_deps sp = Some []"

subsection \<open>Effect scheduling\<close>

text \<open>
  Whether an effect runs after a commit: always on the first commit of a mount and when
  there is no dependency array; otherwise when the array differs from the last one.
\<close>

definition effect_fires ::
  "bool \<Rightarrow> search_params list option \<Rightarrow> search_params list option \<Rightarrow> bool" where
  "effect_fires was_committed old new =
     (if was_committed then (case new of None \<Rightarrow> True | Some d \<Rightarrow> old \<noteq> Some d) else True)"

text \<open>A render of \<open>SamlIdp\<close> and its commit, with the effect if it fires.\<close>

definition render :: "view_state \<Rightarrow> view_state" where
  "render s =
     (let d = SamlIdp_deps (params s)
      in if effect_fires (committed s) (last_deps s) d
         then s\<lparr>committed := True, last_deps := d, signins := signins s @ [saml_effect (params s)]\<rparr>
         else s\<lparr>committed := True, last_deps := d\<rparr>)"

definition saml_init :: view_state where
  "saml_init = \<lparr>mounted = False, committed = False, last_deps = None, params = None, signins = []\<rparr>"

fun saml_step :: "view_state \<Rightarrow> view_event \<Rightarrow> view_state" where
  "saml_step s (Mount sp) =
     (if mounted s then s
      else render (s\<lparr>mounted := True, committed := False, last_deps := None, params := sp\<rparr>))"
| "saml_step s Rerender = (if mounted s then render s else s)"
| "saml_step s (Navigate sp) = (if mounted s then render (s\<lparr>params := sp\<rparr>) else s)"
| "saml_step s Unmount = s\<lparr>mounted := False, committed := False, last_deps := None\<rparr>"

fun saml_run :: "view_state \<Rightarrow> view_event list \<Rightarrow> view_state" where
  "saml_run s [] = s"
| "saml_run s (e # es) = saml_run (saml_step s e) es"

inductive saml_reachable :: "view_state \<Rightarrow> bool" where
  init: "saml_reachable saml_init"
| step: "saml_reachable s \<Longrightarrow> saml_reachable (saml_step s e)"

fun stays_mounted :: "view_event \<Rightarrow> bool" where
  "stays_mounted Rerender = True"
| "stays_mounted (Navigate _) = True"
| "stays_mounted (Mount _) = False"
| "stays_mounted Unmount = False"

fun mounts_fresh :: "view_state \<Rightarrow> view_event \<Rightarrow> bool" where
  "mounts_fresh s (Mount _) = (\<not> mounted s)"
| "mounts_fresh s _ = False"

fun event_params :: "view_event \<Rightarrow> search_params" where
  "event_params (Mount sp) = sp"
| "event_params (Navigate sp) = sp"
| "event_params _ = None"

text \<open>The number of events of a trace that mount an unmounted view.\<close>

fun fresh_mounts :: "bool \<Rightarrow> view_event list \<Rightarrow> nat" where
  "fresh_mounts m [] = 0"
| "fresh_mounts m (Mount _ # es) = (if m then fresh_mounts m es else Suc (fresh_mounts True es))"
| "fresh_mounts m (Unmount # es) = fresh_mounts False es"
| "fresh_mounts m (Rerender # es) = fresh_mounts m es"
| "fresh_mounts m (Navigate _ # es) = fresh_mounts m es"

text \<open>
  The invariant: a mounted view has committed with the array \<open>[]\<close>; an unmounted one has
  no commit and no recorded dependencies.
\<close>

definition view_inv :: "view_state \<Rightarrow> bool" where
  "view_inv s =
     (if mounted s then committed s \<and> last_deps s = Some [] else \<not> committed s \<and> last_deps s = None)"

subsection \<open>Lemmas\<close>

lemma render_fields [simp]:
  "mounted (render s) = mounted s"
  "params (render s) = params s"
  "committed (render s) = True"
  "last_deps (render s) = Some []"
  by (simp_all add: render_def Let_def SamlIdp_deps_def)

lemma render_committed_same:
  "committed s \<Longrightarrow> last_deps s = Some [] \<Longrightarrow> signins (render s) = signins s"
  by (simp add: render_def SamlIdp_deps_def effect_fires_def)

lemma render_first:
  "\<not> committed s \<Longrightarrow> signins (render s) = signins s @ [saml_effect (params s)]"
  by (simp add: render_def SamlIdp_deps_def effect_fires_def)

lemma saml_step_inv: "view_inv s \<Longrightarrow> view_inv (saml_step s e)"
  by (cases e) (auto simp: view_inv_def)

lemma saml_step_signins:
  assumes "view_inv s"
  shows "signins (saml_step s e) =
           signins s @ (if mounts_fresh s e then [saml_effect (event_params e)] else [])"
  using assms
  by (cases e) (auto simp: view_inv_def render_committed_same render_first)

lemma saml_run_mounted_signins:
  assumes "view_inv s" and "mounted s" and "list_all stays_mounted es"
  shows "signins (saml_run s es) = signins s"
  using assms
proof (induction es arbitrary: s)
  case Nil
  then show ?case by simp
next
  case (Cons e es)
  have "view_inv (saml_step s e)" using Cons.prems(1) by (rule saml_step_inv)
  moreover have "mounted (saml_step s e)" using Cons.prems(2,3) by (cases e) auto
  moreover have "signins (saml_step s e) = signins s"
    using saml_step_signins [OF Cons.prems(1), of e] Cons.prems(3) by (cases e) auto
  ultimately show ?case using Cons.prems(3) Cons.IH by simp
qed

lemma saml_run_count:
  assumes "view_inv s"
  shows "length (signins (saml_run s es)) = length (signins s) + fresh_mounts (mounted s) es"
  using assms
proof (induction es arbitrary: s)
  case Nil
  then show ?case by simp
next
  case (Cons e es)
  from Cons.prems have inv: "view_inv (saml_step s e)" by (rule saml_step_inv)
  have "length (signins (saml_run s (e # es))) =
          length (signins (saml_step s e)) + fresh_mounts (mounted (saml_step s e)) es"
    using Cons.IH [OF inv] by simp
  also have "\<dots> = length (signins s) + fresh_mounts (mounted s) (e # es)"
    using saml_step_signins [OF Cons.prems, of e] by (cases e) auto
  finally show ?case .
qed

lemma saml_step_signin_shape:
  "list_all (\<lambda>c. provider c = ''saml-idp'' \<and> callbackUrl c = ''/'') (signins s) \<Longrightarrow>
   list_all (\<lambda>c. provider c = ''saml-idp'' \<and> callbackUrl c = ''/'') (signins (saml_step s e))"
  by (cases e) (auto simp: render_def Let_def saml_effect_def)

subsection \<open>Properties of the view\<close>

text \<open>
  C12. Spec property 7: after the view is mounted with the URL's parameters, any number of
  re-renders and parameter changes leave exactly one call of \<open>signIn\<close>, with provider
  \<open>saml-idp\<close>, callback \<open>/\<close> and the \<open>code\<close> of the mount's parameters.
\<close>

theorem saml_signin_exactly_once:
  assumes "list_all stays_mounted es"
  shows "signins (saml_run saml_init (Mount sp # es)) =
           [\<lparr>provider = ''saml-idp'', callbackUrl = ''/'', code = search_get sp ''code''\<rparr>]"
proof -
  let ?s = "saml_step saml_init (Mount sp)"
  have inv: "view_inv ?s" by (intro saml_step_inv) (simp add: view_inv_def saml_init_def)
  have m: "mounted ?s" by (simp add: saml_init_def)
  have "signins ?s = [saml_effect sp]"
    by (simp add: saml_init_def render_first)
  with saml_run_mounted_signins [OF inv m assms] show ?thesis
    by (simp add: saml_effect_def)
qed

text \<open>
  C13. Exactly once per mount, over every trace: the number of \<open>signIn\<close> calls equals the
  number of events that mount an unmounted view, whatever re-renders, navigations and
  unmounts come between.
\<close>

theorem saml_signins_per_mount:
  "length (signins (saml_run saml_init es)) = fresh_mounts False es"
proof -
  have "view_inv saml_init" by (simp add: view_inv_def saml_init_def)
  then show ?thesis by (simp add: saml_run_count) (simp add: saml_init_def)
qed

text \<open>
  C14. Invariant of the reachable states: a mounted view has committed with the array
  \<open>[]\<close> (so no later render fires the effect), an unmounted one has no pending commit, and
  every recorded call targets provider \<open>saml-idp\<close> with callback \<open>/\<close>.
\<close>

theorem saml_reachable_invariant:
  assumes "saml_reachable s"
  shows "view_inv s \<and> list_all (\<lambda>c. provider c = ''saml-idp'' \<and> callbackUrl c = ''/'') (signins s)"
  using assms
proof (induction rule: saml_reachable.induct)
  case init
  show ?case by (simp add: view_inv_def saml_init_def)
next
  case (step s e)
  then show ?case by (blast intro: saml_step_inv saml_step_signin_shape)
qed

end
