(* ===== verification/Scenarios.thy ===== *)
theory Scenarios
  imports Faults SamlIdp
begin

text \<open>
  Concrete requests against concrete stores, used to instantiate each property at an input
  where its hypotheses hold. Alice (user 7) prefers Zoom as her conferencing app and has it
  installed. She is a plain MEMBER of team 3 in \<open>member_store\<close> and its ADMIN in
  \<open>admin_store\<close>, where she already owns a paid event type with slug \<open>intro\<close>.
  \<open>env_paying\<close> gets a payment reference from \<open>handlePayments\<close>; \<open>env_failing\<close> gets
  nothing.
\<close>

subsection \<open>Fixtures\<close>

definition zoom_pref :: conferencing_app where
  "zoom_pref = \<lparr>appSlug = ''zoom'', appLink = Some ''https://zoom.us/j/1''\<rparr>"

definition zoom_app :: app where
  "zoom_app = \<lparr>app_slug = ''zoom'', locationOption = Some ''integrations:zoom''\<rparr>"

definition alice :: session_user where
  "alice = \<lparr>user_id = 7, user_email = ''alice@example.com'', user_username = Some ''alice'',
            user_metadata = MetaObject (Some zoom_pref)\<rparr>"

definition env_paying :: handler_env where
  "env_paying = \<lparr>env_uuid = ''uid-1'', daily_api_key = Some ''daily-key'', apps_of = (\<lambda>_. [zoom_app]),
                 handlePayments = (\<lambda>_ _ _. Some ''pay_1'')\<rparr>"

definition env_failing :: handler_env where
  "env_failing = env_paying\<lparr>handlePayments := (\<lambda>_ _ _. None)\<rparr>"

definition intro_input :: create_input where
  "intro_input = \<lparr>inp_title = ''Intro call'', inp_slug = ''intro'', inp_length = 30, inp_amount = 500,
                  inp_locations = None, inp_schedulingType = None, inp_teamId = None,
                  inp_metadata = None\<rparr>"

definition team_input :: create_input where
  "team_input = intro_input\<lparr>inp_teamId := Some 3, inp_schedulingType := Some COLLECTIVE\<rparr>"

definition paid_intro :: event_type where
  "paid_intro = \<lparr>ev_id = 1, ev_uid = ''uid-0'', ev_title = ''Intro call'', ev_slug = ''intro'',
                 ev_length = 30, ev_amount = 500, ev_paid = True, ev_owner = Some 7, ev_users = [7],
                 ev_team = None, ev_schedulingType = None, ev_locations = [], ev_metadata = None\<rparr>"

definition member_store :: db where
  "member_store = \<lparr>eventTypes = [], memberships = [\<lparr>m_userId = 7, m_teamId = 3, m_accepted = True,
                                                     m_role = MEMBER\<rparr>], next_id = 1\<rparr>"

definition admin_store :: db where
  "admin_store = \<lparr>eventTypes = [paid_intro], memberships = [\<lparr>m_userId = 7, m_teamId = 3,
                    m_accepted = True, m_role = ADMIN\<rparr>], next_id = 2\<rparr>"

definition world_of :: "db \<Rightarrow> world" where
  "world_of s = \<lparr>store = s, effects = []\<rparr>"

text \<open>The row a paid personal request of Alice creates in \<open>member_store\<close>, and the charge.\<close>

definition intro_row :: event_type where
  "intro_row = \<lparr>ev_id = 1, ev_uid = ''uid-1'', ev_title = ''Intro call'', ev_slug = [],
                ev_length = 30, ev_amount = 500, ev_paid = False, ev_owner = Some 7, ev_users = [7],
                ev_team = None, ev_schedulingType = None,
                ev_locations = [\<lparr>loc_type = ''integrations:zoom'', loc_link = Some ''https://zoom.us/j/1''\<rparr>],
                ev_metadata = None\<rparr>"

definition intro_charge :: effect where
  "intro_charge = ChargeCall \<lparr>pi_title = ''Intro call'', pi_slug = ''intro'', pi_amount = 500, pi_id = 1\<rparr>
                    ''alice@example.com'' ''alice''"

definition paid_world :: world where
  "paid_world = \<lparr>store = member_store\<lparr>eventTypes := [intro_row], next_id := 2\<rparr>, effects = [intro_charge]\<rparr>"

text \<open>The row and world of a paid team request of Alice, as ADMIN of team 3, with slug \<open>team\<close>.\<close>

definition team_row :: event_type where
  "team_row = \<lparr>ev_id = 2, ev_uid = ''uid-1'', ev_title = ''Intro call'', ev_slug = [],
               ev_length = 30, ev_amount = 500, ev_paid = False, ev_owner = None, ev_users = [7],
               ev_team = Some 3, ev_schedulingType = Some COLLECTIVE,
               ev_locations = [\<lparr>loc_type = ''integrations:zoom'', loc_link = Some ''https://zoom.us/j/1''\<rparr>],
               ev_metadata = None\<rparr>"

definition team_world :: world where
  "team_world = \<lparr>store = admin_store\<lparr>eventTypes := [paid_intro, team_row], next_id := 3\<rparr>,
                 effects = [ChargeCall \<lparr>pi_title = ''Intro call'', pi_slug = ''team'', pi_amount = 500,
                                        pi_id = 2\<rparr> ''alice@example.com'' ''alice'']\<rparr>"

text \<open>
  Rejecting collaborators: the database is unreachable (\<open>db_down\<close>) for the credentials
  lookup, for the compensating delete, or the payment provider times out.
\<close>

definition db_down :: exn where
  "db_down = ServiceError ''connection refused''"

definition payment_timeout :: exn where
  "payment_timeout = ServiceError ''payment provider timeout''"

definition creds_down :: faults where
  "creds_down = no_faults\<lparr>f_credentials := Some db_down\<rparr>"

definition payment_throws :: faults where
  "payment_throws = no_faults\<lparr>f_payment := Some payment_timeout\<rparr>"

definition delete_throws :: faults where
  "delete_throws = no_faults\<lparr>f_delete := Some db_down\<rparr>"

text \<open>The world a throwing payment leaves: the unpaid row of Alice's request stays.\<close>

definition orphan_world :: world where
  "orphan_world = \<lparr>store = member_store\<lparr>eventTypes := [intro_row], next_id := 2\<rparr>, effects = [intro_charge]\<rparr>"

lemmas scenario_defs = zoom_pref_def zoom_app_def alice_def env_paying_def env_failing_def
  intro_input_def team_input_def paid_intro_def member_store_def admin_store_def world_of_def
  intro_row_def intro_charge_def paid_world_def

lemmas run_defs = scenario_defs model_simps Let_def row_of_data_def

subsection \<open>Witnesses of the handler's properties\<close>

theorem createHandler_refines_contract_witness:
  "wf_db (store (world_of member_store)) \<and>
   createHandler env_paying alice intro_input (world_of member_store) =
     (Inr \<lparr>paymentUid = ''pay_1''\<rparr>, paid_world) \<and>
   create_contract (store (world_of member_store)) (Inr \<lparr>paymentUid = ''pay_1''\<rparr>) (store paid_world)"
proof -
  have h1: "wf_db (store (world_of member_store))" by (simp add: scenario_defs wf_db_def)
  have h2: "createHandler env_paying alice intro_input (world_of member_store) =
     (Inr \<lparr>paymentUid = ''pay_1''\<rparr>, paid_world)"
    by (simp add: run_defs)
  show ?thesis using h1 h2 createHandler_refines_contract [OF h1 h2] by simp
qed

theorem createHandler_unauthorized_witness:
  "parse_user_metadata (user_metadata alice) = Inr (Some zoom_pref) \<and>
   inp_teamId team_input = Some 3 \<and> (3::nat) \<noteq> 0 \<and> inp_schedulingType team_input = Some COLLECTIVE \<and>
   \<not> may_create_in_team (store (world_of member_store)) (user_id alice) 3 \<and>
   createHandler env_paying alice team_input (world_of member_store) =
     (Inl (TRPCError UNAUTHORIZED NoMessage),
      (world_of member_store)\<lparr>effects := effects (world_of member_store) @ [WarnNoPermission (user_id alice)]\<rparr>)"
proof -
  have h1: "parse_user_metadata (user_metadata alice) = Inr (Some zoom_pref)"
    by (simp add: run_defs)
  have h2: "inp_teamId team_input = Some 3" and h3: "(3::nat) \<noteq> 0"
    and h4: "inp_schedulingType team_input = Some COLLECTIVE"
    by (simp_all add: scenario_defs)
  have h5: "\<not> may_create_in_team (store (world_of member_store)) (user_id alice) 3"
    by (simp add: scenario_defs may_create_in_team_def)
  show ?thesis
    using h1 h2 h3 h4 h5 createHandler_unauthorized [OF h1 h2 h3 h4 h5, where env = env_paying]
    by simp
qed

theorem createHandler_duplicate_slug_witness:
  "parse_user_metadata (user_metadata alice) = Inr (Some zoom_pref) \<and>
   team_authorized (store (world_of admin_store)) (user_id alice) (inp_teamId team_input)
     (inp_schedulingType team_input) \<and>
   eventType_findFirst (store (world_of admin_store)) (user_id alice) (inp_slug team_input) =
     Some paid_intro \<and>
   createHandler env_paying alice team_input (world_of admin_store) =
     (Inl (TRPCError BAD_REQUEST (Cause (TRPCError BAD_REQUEST
        (Message ''URL Slug already exists for given user.'')))), world_of admin_store)"
proof -
  have h1: "parse_user_metadata (user_metadata alice) = Inr (Some zoom_pref)"
    by (simp add: run_defs)
  have h2: "team_authorized (store (world_of admin_store)) (user_id alice) (inp_teamId team_input)
     (inp_schedulingType team_input)"
    by (simp add: run_defs team_authorized_def)
  have h3: "eventType_findFirst (store (world_of admin_store)) (user_id alice) (inp_slug team_input) =
     Some paid_intro"
    by (simp add: run_defs)
  show ?thesis
    using h1 h2 h3 createHandler_duplicate_slug [OF h1 h2 h3, where env = env_paying] by simp
qed

theorem createHandler_payment_failure_witness:
  "wf_db (store (world_of member_store)) \<and>
   parse_user_metadata (user_metadata alice) = Inr (Some zoom_pref) \<and>
   team_authorized (store (world_of member_store)) (user_id alice) (inp_teamId intro_input)
     (inp_schedulingType intro_input) \<and>
   eventType_findFirst (store (world_of member_store)) (user_id alice) (inp_slug intro_input) = None \<and>
   \<not> truthy_str (handlePayments env_failing
        (charge_info intro_input (payload env_failing alice intro_input (Some zoom_pref))
           (store (world_of member_store))) (user_email alice) (or_empty (user_username alice))) \<and>
   createHandler env_failing alice intro_input (world_of member_store) =
     (Inl (TRPCError BAD_REQUEST (Cause (TRPCError INTERNAL_SERVER_ERROR
        (Message ''Payment not created due to internal server errror'')))),
      (world_of member_store)\<lparr>store := (store (world_of member_store))\<lparr>next_id := Suc (next_id (store (world_of member_store)))\<rparr>,
        effects := effects (world_of member_store) @
          [charge_call alice intro_input (payload env_failing alice intro_input (Some zoom_pref))
             (store (world_of member_store))]\<rparr>)"
proof -
  have h1: "wf_db (store (world_of member_store))" by (simp add: scenario_defs wf_db_def)
  have h2: "parse_user_metadata (user_metadata alice) = Inr (Some zoom_pref)"
    by (simp add: run_defs)
  have h3: "team_authorized (store (world_of member_store)) (user_id alice) (inp_teamId intro_input)
     (inp_schedulingType intro_input)"
    by (simp add: scenario_defs team_authorized_def)
  have h4: "eventType_findFirst (store (world_of member_store)) (user_id alice) (inp_slug intro_input) = None"
    by (simp add: run_defs)
  have h5: "\<not> truthy_str (handlePayments env_failing
        (charge_info intro_input (payload env_failing alice intro_input (Some zoom_pref))
           (store (world_of member_store))) (user_email alice) (or_empty (user_username alice)))"
    by (simp add: scenario_defs)
  show ?thesis using h1 h2 h3 h4 h5 createHandler_payment_failure [OF h1 h2 h3 h4 h5] by simp
qed

theorem createHandler_success_witness:
  "wf_db (store (world_of member_store)) \<and>
   parse_user_metadata (user_metadata alice) = Inr (Some zoom_pref) \<and>
   team_authorized (store (world_of member_store)) (user_id alice) (inp_teamId intro_input)
     (inp_schedulingType intro_input) \<and>
   eventType_findFirst (store (world_of member_store)) (user_id alice) (inp_slug intro_input) = None \<and>
   handlePayments env_paying
     (charge_info intro_input (payload env_paying alice intro_input (Some zoom_pref))
        (store (world_of member_store))) (user_email alice) (or_empty (user_username alice)) =
     Some ''pay_1'' \<and>
   truthy_str (Some ''pay_1'') \<and>
   (\<exists>e. createHandler env_paying alice intro_input (world_of member_store) =
          (Inr \<lparr>paymentUid = or_empty (Some ''pay_1'')\<rparr>,
           (world_of member_store)\<lparr>store := (store (world_of member_store))\<lparr>
              eventTypes := eventTypes (store (world_of member_store)) @ [e],
              next_id := Suc (next_id (store (world_of member_store)))\<rparr>,
             effects := effects (world_of member_store) @
               [charge_call alice intro_input (payload env_paying alice intro_input (Some zoom_pref))
                  (store (world_of member_store))]\<rparr>)
        \<and> ev_id e = next_id (store (world_of member_store)) \<and> ev_slug e = [] \<and> \<not> ev_paid e
        \<and> ev_locations e = resolve_locations (inp_locations intro_input) (daily_api_key env_paying)
                              (Some zoom_pref) (apps_of env_paying (user_id alice))
        \<and> ev_owner e = (if truthy_nat (inp_teamId intro_input) then None else Some (user_id alice))
        \<and> ev_users e = (if inp_schedulingType intro_input = Some MANAGED then [] else [user_id alice]))"
proof -
  have h1: "wf_db (store (world_of member_store))" by (simp add: scenario_defs wf_db_def)
  have h2: "parse_user_metadata (user_metadata alice) = Inr (Some zoom_pref)"
    by (simp add: run_defs)
  have h3: "team_authorized (store (world_of member_store)) (user_id alice) (inp_teamId intro_input)
     (inp_schedulingType intro_input)"
    by (simp add: scenario_defs team_authorized_def)
  have h4: "eventType_findFirst (store (world_of member_store)) (user_id alice) (inp_slug intro_input) = None"
    by (simp add: run_defs)
  have h5: "handlePayments env_paying
     (charge_info intro_input (payload env_paying alice intro_input (Some zoom_pref))
        (store (world_of member_store))) (user_email alice) (or_empty (user_username alice)) =
     Some ''pay_1''"
    by (simp add: scenario_defs)
  have h6: "truthy_str (Some ''pay_1'')" by simp
  show ?thesis using h1 h2 h3 h4 h5 h6 createHandler_success [OF h1 h2 h3 h4 h5 h6] by blast
qed

theorem createHandler_error_kinds_witness:
  "createHandler env_paying alice team_input (world_of member_store) =
     (Inl (TRPCError UNAUTHORIZED NoMessage), \<lparr>store = member_store, effects = [WarnNoPermission 7]\<rparr>) \<and>
   (TRPCError UNAUTHORIZED NoMessage = ZodError \<or>
    TRPCError UNAUTHORIZED NoMessage = TRPCError UNAUTHORIZED NoMessage \<or>
    (\<exists>c. TRPCError UNAUTHORIZED NoMessage = TRPCError BAD_REQUEST (Cause c)))"
proof -
  have h: "createHandler env_paying alice team_input (world_of member_store) =
     (Inl (TRPCError UNAUTHORIZED NoMessage), \<lparr>store = member_store, effects = [WarnNoPermission 7]\<rparr>)"
    by (simp add: run_defs)
  show ?thesis using h createHandler_error_kinds [OF h] by simp
qed

theorem createHandler_team_requires_role_witness:
  "wf_db (store (world_of admin_store)) \<and>
   createHandler env_paying alice (team_input\<lparr>inp_slug := ''team''\<rparr>) (world_of admin_store) =
     (Inr \<lparr>paymentUid = ''pay_1''\<rparr>, team_world) \<and>
   team_row \<in> set (eventTypes (store team_world)) \<and>
   team_row \<notin> set (eventTypes (store (world_of admin_store))) \<and>
   ev_team team_row = Some 3 \<and>
   may_create_in_team (store (world_of admin_store)) (user_id alice) 3"
proof -
  have h1: "wf_db (store (world_of admin_store))" by (simp add: scenario_defs wf_db_def)
  have h2: "createHandler env_paying alice (team_input\<lparr>inp_slug := ''team''\<rparr>) (world_of admin_store) =
     (Inr \<lparr>paymentUid = ''pay_1''\<rparr>, team_world)"
    by (simp add: run_defs team_row_def team_world_def)
  have h3: "team_row \<in> set (eventTypes (store team_world))" by (simp add: team_world_def)
  have h4: "team_row \<notin> set (eventTypes (store (world_of admin_store)))"
    by (simp add: scenario_defs team_row_def)
  have h5: "ev_team team_row = Some 3" by (simp add: team_row_def)
  show ?thesis
    using h1 h2 h3 h4 h5 createHandler_team_requires_role [OF h1 h2 h3 h4 h5] by simp
qed

theorem createHandler_effects_witness:
  "wf_db (store (world_of member_store)) \<and>
   createHandler env_paying alice intro_input (world_of member_store) =
     (Inr \<lparr>paymentUid = ''pay_1''\<rparr>, paid_world) \<and>
   (\<exists>new. effects paid_world = effects (world_of member_store) @ new \<and>
      (new = [] \<or> new = [WarnNoPermission (user_id alice)] \<or>
       (\<exists>i. new = [ChargeCall i (user_email alice) (or_empty (user_username alice))] \<and>
            pi_id i = next_id (store (world_of member_store)) \<and> pi_slug i = inp_slug intro_input \<and>
            pi_title i = inp_title intro_input)))"
proof -
  have h1: "wf_db (store (world_of member_store))" by (simp add: scenario_defs wf_db_def)
  have h2: "createHandler env_paying alice intro_input (world_of member_store) =
     (Inr \<lparr>paymentUid = ''pay_1''\<rparr>, paid_world)"
    by (simp add: run_defs)
  show ?thesis using h1 h2 createHandler_effects [OF h1 h2] by blast
qed

theorem createHandler_team_without_scheduling_type_witness:
  "wf_db (store (world_of member_store)) \<and>
   parse_user_metadata (user_metadata alice) = Inr (Some zoom_pref) \<and>
   inp_teamId (intro_input\<lparr>inp_teamId := Some 3\<rparr>) = Some 3 \<and> (3::nat) \<noteq> 0 \<and>
   inp_schedulingType (intro_input\<lparr>inp_teamId := Some 3\<rparr>) = None \<and>
   eventType_findFirst (store (world_of member_store)) (user_id alice)
     (inp_slug (intro_input\<lparr>inp_teamId := Some 3\<rparr>)) = None \<and>
   truthy_str (handlePayments env_paying
     (charge_info (intro_input\<lparr>inp_teamId := Some 3\<rparr>)
        (payload env_paying alice (intro_input\<lparr>inp_teamId := Some 3\<rparr>) (Some zoom_pref))
        (store (world_of member_store))) (user_email alice) (or_empty (user_username alice))) \<and>
   (\<exists>r w' e. createHandler env_paying alice (intro_input\<lparr>inp_teamId := Some 3\<rparr>) (world_of member_store) =
        (Inr r, w') \<and>
      eventTypes (store w') = eventTypes (store (world_of member_store)) @ [e] \<and>
      ev_owner e = None \<and> ev_team e = None \<and> ev_users e = [user_id alice])"
proof -
  have h1: "wf_db (store (world_of member_store))" by (simp add: scenario_defs wf_db_def)
  have h2: "parse_user_metadata (user_metadata alice) = Inr (Some zoom_pref)"
    by (simp add: run_defs)
  have h3: "inp_teamId (intro_input\<lparr>inp_teamId := Some 3\<rparr>) = Some 3" and h4: "(3::nat) \<noteq> 0"
    and h5: "inp_schedulingType (intro_input\<lparr>inp_teamId := Some 3\<rparr>) = None"
    by (simp_all add: scenario_defs)
  have h6: "eventType_findFirst (store (world_of member_store)) (user_id alice)
     (inp_slug (intro_input\<lparr>inp_teamId := Some 3\<rparr>)) = None"
    by (simp add: run_defs)
  have h7: "truthy_str (handlePayments env_paying
     (charge_info (intro_input\<lparr>inp_teamId := Some 3\<rparr>)
        (payload env_paying alice (intro_input\<lparr>inp_teamId := Some 3\<rparr>) (Some zoom_pref))
        (store (world_of member_store))) (user_email alice) (or_empty (user_username alice)))"
    by (simp add: scenario_defs)
  show ?thesis
    using h1 h2 h3 h4 h5 h6 h7 createHandler_team_without_scheduling_type [OF h1 h2 h3 h4 h5 h6 h7]
    by blast
qed

subsection \<open>Witnesses of the location resolver's properties\<close>

theorem resolve_locations_default_app_witness:
  "appSlug zoom_pref \<noteq> ''daily-video'' \<and> find_app [zoom_app] (appSlug zoom_pref) = Some zoom_app \<and>
   locationOption zoom_app = Some ''integrations:zoom'' \<and>
   resolve_locations None (Some ''daily-key'') (Some zoom_pref) [zoom_app] =
     [\<lparr>loc_type = ''integrations:zoom'', loc_link = appLink zoom_pref\<rparr>]"
proof -
  have h1: "appSlug zoom_pref \<noteq> ''daily-video''" by (simp add: zoom_pref_def)
  have h2: "find_app [zoom_app] (appSlug zoom_pref) = Some zoom_app"
    by (simp add: find_app_def zoom_app_def zoom_pref_def)
  have h3: "locationOption zoom_app = Some ''integrations:zoom''" by (simp add: zoom_app_def)
  show ?thesis
    using h1 h2 h3 resolve_locations_default_app [OF h1 h2 h3, of None "Some ''daily-key''"] by simp
qed

theorem resolve_locations_fallback_daily_witness:
  "appSlug zoom_pref \<noteq> ''daily-video'' \<and>
   list_all (\<lambda>a. app_slug a \<noteq> appSlug zoom_pref)
     [\<lparr>app_slug = ''google-meet'', locationOption = Some ''integrations:google:meet''\<rparr>] \<and>
   resolve_locations None None (Some zoom_pref)
     [\<lparr>app_slug = ''google-meet'', locationOption = Some ''integrations:google:meet''\<rparr>] =
     [\<lparr>loc_type = DailyLocationType, loc_link = appLink zoom_pref\<rparr>]"
proof -
  have h1: "appSlug zoom_pref \<noteq> ''daily-video''" by (simp add: zoom_pref_def)
  have h2: "list_all (\<lambda>a. app_slug a \<noteq> appSlug zoom_pref)
     [\<lparr>app_slug = ''google-meet'', locationOption = Some ''integrations:google:meet''\<rparr>]"
    by (simp add: zoom_pref_def)
  show ?thesis using h1 h2 resolve_locations_fallback_daily [OF h1 h2, of None None] by simp
qed

subsection \<open>Witnesses of the view's properties\<close>

theorem saml_signin_exactly_once_witness:
  "list_all stays_mounted [Rerender, Navigate (Some [(''code'', ''XYZ'')])] \<and>
   signins (saml_run saml_init
     [Mount (Some [(''code'', ''ABC123'')]), Rerender, Navigate (Some [(''code'', ''XYZ'')])]) =
     [\<lparr>provider = ''saml-idp'', callbackUrl = ''/'', code = search_get (Some [(''code'', ''ABC123'')]) ''code''\<rparr>] \<and>
   search_get (Some [(''code'', ''ABC123'')]) ''code'' = Some ''ABC123''"
proof -
  have h: "list_all stays_mounted [Rerender, Navigate (Some [(''code'', ''XYZ'')])]" by simp
  show ?thesis
    using h saml_signin_exactly_once [OF h, of "Some [(''code'', ''ABC123'')]"]
    by (simp add: search_get_def)
qed

theorem saml_signins_per_mount_witness:
  "length (signins (saml_run saml_init [Mount None, Rerender, Unmount, Mount None, Mount None])) =
     fresh_mounts False [Mount None, Rerender, Unmount, Mount None, Mount None] \<and>
   fresh_mounts False [Mount None, Rerender, Unmount, Mount None, Mount None] = 2"
  using saml_signins_per_mount [of "[Mount None, Rerender, Unmount, Mount None, Mount None]"]
  by simp

theorem saml_reachable_invariant_witness:
  "saml_reachable (saml_step saml_init (Mount (Some [(''code'', ''ABC123'')]))) \<and>
   view_inv (saml_step saml_init (Mount (Some [(''code'', ''ABC123'')]))) \<and>
   list_all (\<lambda>c. provider c = ''saml-idp'' \<and> callbackUrl c = ''/'')
     (signins (saml_step saml_init (Mount (Some [(''code'', ''ABC123'')]))))"
proof -
  have h: "saml_reachable (saml_step saml_init (Mount (Some [(''code'', ''ABC123'')])))"
    by (rule saml_reachable.step [OF saml_reachable.init])
  show ?thesis using h saml_reachable_invariant [OF h] by simp
qed

subsection \<open>Witnesses of the authorization check and the store\<close>

theorem authorize_refines_contract_witness:
  "unique_memberships member_store \<and>
   authorize member_store 7 3 =
     (if may_create_in_team member_store 7 3 then (Inr (), [])
      else (Inl (TRPCError UNAUTHORIZED NoMessage), [WarnNoPermission 7])) \<and>
   \<not> may_create_in_team member_store 7 3"
proof -
  have h: "unique_memberships member_store" by (simp add: member_store_def unique_memberships_def)
  show ?thesis
    using h authorize_refines_contract [OF h, of 7 3]
    by (simp add: member_store_def may_create_in_team_def)
qed

subsection \<open>Witnesses of the properties under rejecting collaborators\<close>

theorem createHandler_exc_pre_try_unwrapped_witness:
  "parse_user_metadata (user_metadata alice) = Inr (Some zoom_pref) \<and>
   pre_try_fault creds_down (Some zoom_pref) intro_input = Some db_down \<and>
   createHandler_exc env_paying creds_down alice intro_input (world_of member_store) =
     (Inl db_down, world_of member_store)"
proof -
  have h1: "parse_user_metadata (user_metadata alice) = Inr (Some zoom_pref)"
    by (simp add: run_defs)
  have h2: "pre_try_fault creds_down (Some zoom_pref) intro_input = Some db_down"
    by (simp add: pre_try_fault_def creds_down_def uses_credentials_def zoom_pref_def)
  show ?thesis using h1 h2 createHandler_exc_pre_try_unwrapped [OF h1 h2] by simp
qed

theorem createHandler_exc_error_kinds_witness:
  "createHandler_exc env_paying creds_down alice intro_input (world_of member_store) =
     (Inl db_down, world_of member_store) \<and>
   Some db_down \<in> {f_appKeys creds_down, f_credentials creds_down, f_membership creds_down} \<and>
   db_down \<noteq> ZodError \<and> db_down \<noteq> TRPCError UNAUTHORIZED NoMessage"
proof -
  have h: "createHandler_exc env_paying creds_down alice intro_input (world_of member_store) =
     (Inl db_down, world_of member_store)"
    by (simp add: run_defs creds_down_def uses_credentials_def)
  have "db_down = ZodError \<or> db_down = TRPCError UNAUTHORIZED NoMessage \<or>
        (\<exists>c. db_down = TRPCError BAD_REQUEST (Cause c)) \<or>
        Some db_down \<in> {f_appKeys creds_down, f_credentials creds_down, f_membership creds_down}"
    by (rule createHandler_exc_error_kinds [OF h])
  then show ?thesis using h by (simp add: db_down_def)
qed

theorem createHandler_exc_payment_throws_witness:
  "createHandler_exc env_paying payment_throws alice intro_input (world_of member_store) =
     (Inl (TRPCError BAD_REQUEST (Cause payment_timeout)), orphan_world) \<and>
   (\<exists>e. createHandler_exc env_paying payment_throws alice intro_input (world_of member_store) =
          (Inl (TRPCError BAD_REQUEST (Cause payment_timeout)),
           (world_of member_store)\<lparr>store := (store (world_of member_store))\<lparr>eventTypes :=
               eventTypes (store (world_of member_store)) @ [e],
               next_id := Suc (next_id (store (world_of member_store)))\<rparr>,
             effects := effects (world_of member_store) @
               [charge_call alice intro_input (payload env_paying alice intro_input (Some zoom_pref))
                  (store (world_of member_store))]\<rparr>)
        \<and> ev_id e = next_id (store (world_of member_store)) \<and> \<not> ev_paid e)"
proof -
  have h1: "parse_user_metadata (user_metadata alice) = Inr (Some zoom_pref)"
    by (simp add: run_defs)
  have h2: "pre_try_fault payment_throws (Some zoom_pref) intro_input = None"
    by (simp add: pre_try_fault_def payment_throws_def intro_input_def)
  have h3: "team_authorized (store (world_of member_store)) (user_id alice) (inp_teamId intro_input)
              (inp_schedulingType intro_input)"
    by (simp add: team_authorized_def intro_input_def)
  have h4: "f_slugLookup payment_throws = None" "f_create payment_throws = None"
    "f_payment payment_throws = Some payment_timeout"
    by (simp_all add: payment_throws_def)
  have h5: "eventType_findFirst (store (world_of member_store)) (user_id alice) (inp_slug intro_input) = None"
    by (simp add: run_defs)
  have run: "createHandler_exc env_paying payment_throws alice intro_input (world_of member_store) =
     (Inl (TRPCError BAD_REQUEST (Cause payment_timeout)), orphan_world)"
    by (simp add: run_defs payment_throws_def uses_credentials_def orphan_world_def)
  show ?thesis
    by (rule conjI [OF run createHandler_exc_payment_throws [OF h1 h2 h3 h4(1) h5 h4(2,3)]])
qed

theorem createHandler_exc_delete_throws_witness:
  "createHandler_exc env_failing delete_throws alice intro_input (world_of member_store) =
     (Inl (TRPCError BAD_REQUEST (Cause db_down)), orphan_world) \<and>
   (\<exists>e. createHandler_exc env_failing delete_throws alice intro_input (world_of member_store) =
          (Inl (TRPCError BAD_REQUEST (Cause db_down)),
           (world_of member_store)\<lparr>store := (store (world_of member_store))\<lparr>eventTypes :=
               eventTypes (store (world_of member_store)) @ [e],
               next_id := Suc (next_id (store (world_of member_store)))\<rparr>,
             effects := effects (world_of member_store) @
               [charge_call alice intro_input (payload env_failing alice intro_input (Some zoom_pref))
                  (store (world_of member_store))]\<rparr>)
        \<and> ev_id e = next_id (store (world_of member_store)) \<and> \<not> ev_paid e)"
proof -
  have h1: "parse_user_metadata (user_metadata alice) = Inr (Some zoom_pref)"
    by (simp add: run_defs)
  have h2: "pre_try_fault delete_throws (Some zoom_pref) intro_input = None"
    by (simp add: pre_try_fault_def delete_throws_def intro_input_def)
  have h3: "team_authorized (store (world_of member_store)) (user_id alice) (inp_teamId intro_input)
              (inp_schedulingType intro_input)"
    by (simp add: team_authorized_def intro_input_def)
  have h4: "f_slugLookup delete_throws = None" "f_create delete_throws = None"
    "f_payment delete_throws = None" "f_delete delete_throws = Some db_down"
    by (simp_all add: delete_throws_def)
  have h5: "eventType_findFirst (store (world_of member_store)) (user_id alice) (inp_slug intro_input) = None"
    by (simp add: run_defs)
  have h6: "\<not> truthy_str (handlePayments env_failing
              (charge_info intro_input (payload env_failing alice intro_input (Some zoom_pref))
                 (store (world_of member_store)))
              (user_email alice) (or_empty (user_username alice)))"
    by (simp add: env_failing_def)
  have run: "createHandler_exc env_failing delete_throws alice intro_input (world_of member_store) =
     (Inl (TRPCError BAD_REQUEST (Cause db_down)), orphan_world)"
    by (simp add: run_defs delete_throws_def uses_credentials_def orphan_world_def)
  show ?thesis
    by (rule conjI [OF run createHandler_exc_delete_throws [OF h1 h2 h3 h4(1) h5 h4(2,3) h6 h4(4)]])
qed

theorem createHandler_exc_bounds_witness:
  "wf_db (store (world_of member_store)) \<and>
   createHandler_exc env_paying payment_throws alice intro_input (world_of member_store) =
     (Inl (TRPCError BAD_REQUEST (Cause payment_timeout)), orphan_world) \<and>
   wf_db (store orphan_world) \<and> length (eventTypes (store orphan_world)) = 1 \<and>
   list_all (\<lambda>e. \<not> ev_paid e \<and> ev_slug e = []) (eventTypes (store orphan_world))"
proof -
  have h1: "wf_db (store (world_of member_store))" by (simp add: scenario_defs wf_db_def)
  have h2: "createHandler_exc env_paying payment_throws alice intro_input (world_of member_store) =
     (Inl (TRPCError BAD_REQUEST (Cause payment_timeout)), orphan_world)"
    by (simp add: run_defs payment_throws_def uses_credentials_def orphan_world_def)
  show ?thesis
    using h1 h2 createHandler_exc_bounds [OF h1 h2]
    by (simp add: orphan_world_def world_of_def member_store_def intro_row_def)
qed

theorem createHandler_exc_orphan_cause_witness:
  "wf_db (store (world_of member_store)) \<and>
   createHandler_exc env_failing delete_throws alice intro_input (world_of member_store) =
     (Inl (TRPCError BAD_REQUEST (Cause db_down)), orphan_world) \<and>
   eventTypes (store orphan_world) \<noteq> eventTypes (store (world_of member_store)) \<and>
   f_payment delete_throws = None \<and> (\<exists>ex. f_delete delete_throws = Some ex)"
proof -
  have h1: "wf_db (store (world_of member_store))" by (simp add: scenario_defs wf_db_def)
  have h2: "createHandler_exc env_failing delete_throws alice intro_input (world_of member_store) =
     (Inl (TRPCError BAD_REQUEST (Cause db_down)), orphan_world)"
    by (simp add: run_defs delete_throws_def uses_credentials_def orphan_world_def)
  have h3: "eventTypes (store orphan_world) \<noteq> eventTypes (store (world_of member_store))"
    by (simp add: orphan_world_def world_of_def member_store_def)
  have h4: "f_payment delete_throws = None" by (simp add: delete_throws_def)
  show ?thesis using h1 h2 h3 h4 createHandler_exc_orphan_cause [OF h1 h2 h3] by auto
qed

end
