(* ===== verification/Interleaving.thy ===== *)
theory Interleaving
  imports CreateHandler "HOL-Library.Multiset"
begin

text \<open>
  Concurrent requests. \<open>createHandler\<close> awaits the store four times after its
  authorization: the paid-slug lookup (line 88), the insert (line 102), \<open>handlePayments\<close>
  (line 109) and the compensating delete (line 121). Other requests run between these
  awaits. Here the handler is cut at those points. \<open>start_request\<close> covers lines 25 to 85,
  and \<open>advance\<close> runs one step of the \<open>try\<close> block, with the \<open>catch\<close> applied to what it
  throws. A configuration holds the store, the requests in flight with their phases, the
  effect log, and a ghost list \<open>kept\<close> of the rows whose requests returned a payment.
  \<open>conc_step\<close> starts a request or advances any unfinished one. The invariant says that
  the rows of the store are, as a multiset, the initial rows plus the kept rows plus the
  rows held by requests between insert and compensation. \<open>crash_step\<close> adds the
  death of a request's process, and \<open>orphans\<close> records the rows such deaths leave; the
  fault model of \<open>FaultyInterleaving\<close> builds on it.
\<close>

subsection \<open>Requests cut at their awaits\<close>

record request =
  rq_env :: handler_env
  rq_user :: session_user
  rq_input :: create_input

datatype phase =
    Authorized create_data
  | Cleared create_data
  | Inserted event_type
  | Refused event_type
  | Returned "exn + create_result"

text \<open>Lines 25 to 85: everything before the \<open>try\<close> block.\<close>

definition start_request :: "db \<Rightarrow> request \<Rightarrow> phase \<times> effect list" where
  "start_request s q =
     (case parse_user_metadata (user_metadata (rq_user q)) of
        Inl e \<Rightarrow> (Returned (Inl e), [])
      | Inr dcd \<Rightarrow>
          (case attach_team s (user_id (rq_user q)) (inp_teamId (rq_input q))
                  (inp_schedulingType (rq_input q)) (payload (rq_env q) (rq_user q) (rq_input q) dcd) of
             (Inl e, ws) \<Rightarrow> (Returned (Inl e), ws)
           | (Inr d, ws) \<Rightarrow> (Authorized d, ws)))"

text \<open>
  One await of the \<open>try\<close> block (lines 88 to 131); an exception it throws is caught
  (lines 135 to 137) and rethrown as \<open>BAD_REQUEST\<close>.
\<close>

fun advance :: "db \<Rightarrow> request \<Rightarrow> phase \<Rightarrow> phase \<times> db \<times> effect list" where
  "advance s q (Authorized d) =
     (case check_slug s (user_id (rq_user q)) d of
        Inl e \<Rightarrow> (Returned (Inl (TRPCError BAD_REQUEST (Cause e))), s, [])
      | Inr d' \<Rightarrow> (Cleared d', s, []))"
| "advance s q (Cleared d) =
     (case eventType_create s d of (e, s') \<Rightarrow> (Inserted e, s', []))"
| "advance s q (Inserted e) =
     (let info = \<lparr>pi_title = inp_title (rq_input q), pi_slug = inp_slug (rq_input q),
                  pi_amount = ev_amount e, pi_id = ev_id e\<rparr>;
          email = user_email (rq_user q);
          username = or_empty (user_username (rq_user q));
          payment = handlePayments (rq_env q) info email username
      in if truthy_str payment
         then (Returned (Inr \<lparr>paymentUid = or_empty payment\<rparr>), s, [ChargeCall info email username])
         else (Refused e, s, [ChargeCall info email username]))"
| "advance s q (Refused e) =
     (case eventType_delete s (ev_id e) of
        Inl ex \<Rightarrow> (Returned (Inl (TRPCError BAD_REQUEST (Cause ex))), s, [])
      | Inr s' \<Rightarrow>
          (Returned (Inl (TRPCError BAD_REQUEST (Cause (TRPCError INTERNAL_SERVER_ERROR
             (Message ''Payment not created due to internal server errror''))))), s', []))"
| "advance s q (Returned r) = (Returned r, s, [])"

fun is_returned :: "phase \<Rightarrow> bool" where
  "is_returned (Returned _) = True"
| "is_returned _ = False"

subsection \<open>Interleaved requests\<close>

record config =
  cstore :: db
  inflight :: "(request \<times> phase) list"
  ctrace :: "effect list"
  kept :: "event_type list"
  orphans :: "event_type list"

definition conc_init :: "db \<Rightarrow> config" where
  "conc_init s = \<lparr>cstore = s, inflight = [], ctrace = [], kept = [], orphans = []\<rparr>"

fun kept_row :: "phase \<Rightarrow> phase \<Rightarrow> event_type list" where
  "kept_row (Inserted e) (Returned (Inr _)) = [e]"
| "kept_row _ _ = []"

inductive conc_step :: "config \<Rightarrow> config \<Rightarrow> bool" where
  begin_req: "start_request (cstore c) q = (ph, ws) \<Longrightarrow>
     conc_step c (c\<lparr>inflight := inflight c @ [(q, ph)], ctrace := ctrace c @ ws\<rparr>)"
| advance_req: "i < length (inflight c) \<Longrightarrow> inflight c ! i = (q, ph) \<Longrightarrow> \<not> is_returned ph \<Longrightarrow>
     advance (cstore c) q ph = (ph', s', ws) \<Longrightarrow>
     conc_step c (c\<lparr>cstore := s', inflight := (inflight c)[i := (q, ph')], ctrace := ctrace c @ ws,
                    kept := kept c @ kept_row ph ph'\<rparr>)"

inductive conc_reachable :: "db \<Rightarrow> config \<Rightarrow> bool" where
  init: "conc_reachable s0 (conc_init s0)"
| step: "conc_reachable s0 c \<Longrightarrow> conc_step c c' \<Longrightarrow> conc_reachable s0 c'"

text \<open>A scheduler: a list of decisions, starting a request or advancing the \<open>i\<close>-th one.\<close>

datatype decision = Begin request | Step nat

fun schedule :: "config \<Rightarrow> decision \<Rightarrow> config" where
  "schedule c (Begin q) =
     (case start_request (cstore c) q of
        (ph, ws) \<Rightarrow> c\<lparr>inflight := inflight c @ [(q, ph)], ctrace := ctrace c @ ws\<rparr>)"
| "schedule c (Step i) =
     (if i < length (inflight c) \<and> \<not> is_returned (snd (inflight c ! i))
      then (case advance (cstore c) (fst (inflight c ! i)) (snd (inflight c ! i)) of
              (ph', s', ws) \<Rightarrow>
                c\<lparr>cstore := s', inflight := (inflight c)[i := (fst (inflight c ! i), ph')],
                  ctrace := ctrace c @ ws, kept := kept c @ kept_row (snd (inflight c ! i)) ph'\<rparr>)
      else c)"

fun run_schedule :: "config \<Rightarrow> decision list \<Rightarrow> config" where
  "run_schedule c [] = c"
| "run_schedule c (d # ds) = run_schedule (schedule c d) ds"

subsection \<open>Accounting of rows\<close>

fun phase_row :: "phase \<Rightarrow> event_type multiset" where
  "phase_row (Inserted e) = {#e#}"
| "phase_row (Refused e) = {#e#}"
| "phase_row _ = {#}"

definition held :: "(request \<times> phase) list \<Rightarrow> event_type multiset" where
  "held xs = sum_list (map (\<lambda>(q, ph). phase_row ph) xs)"

definition conc_inv :: "db \<Rightarrow> config \<Rightarrow> bool" where
  "conc_inv s0 c \<longleftrightarrow>
     wf_db (cstore c) \<and> memberships (cstore c) = memberships s0 \<and>
     mset (eventTypes (cstore c)) = mset (eventTypes s0) + mset (kept c) + held (inflight c)"

subsection \<open>Crashes\<close>

text \<open>
  The spec's section 5: create, pay and compensate are not one transaction, so a process
  that dies between the insert and the compensation leaves its row. \<open>crash_step\<close> is
  \<open>conc_step\<close> plus the death of any unfinished request. A dead request never runs
  again: its phase becomes returned, with the crash as its error. The row it held, if
  any, goes to the ghost list \<open>orphans\<close>.
\<close>

definition crashed :: exn where
  "crashed = ServiceError ''process crashed''"

fun held_row :: "phase \<Rightarrow> event_type list" where
  "held_row (Inserted e) = [e]"
| "held_row (Refused e) = [e]"
| "held_row _ = []"

inductive crash_step :: "config \<Rightarrow> config \<Rightarrow> bool" where
  run: "conc_step c c' \<Longrightarrow> crash_step c c'"
| crash: "i < length (inflight c) \<Longrightarrow> inflight c ! i = (q, ph) \<Longrightarrow> \<not> is_returned ph \<Longrightarrow>
     crash_step c (c\<lparr>inflight := (inflight c)[i := (q, Returned (Inl crashed))],
                    orphans := orphans c @ held_row ph\<rparr>)"

text \<open>The accounting with crashes: the orphans join the initial and the kept rows.\<close>

definition crash_inv :: "db \<Rightarrow> config \<Rightarrow> bool" where
  "crash_inv s0 c \<longleftrightarrow>
     wf_db (cstore c) \<and> memberships (cstore c) = memberships s0 \<and>
     mset (eventTypes (cstore c)) =
       mset (eventTypes s0) + mset (orphans c) + mset (kept c) + held (inflight c)"

subsection \<open>Lemmas\<close>

lemma held_append [simp]: "held (xs @ [(q, ph)]) = held xs + phase_row ph"
  by (simp add: held_def)

lemma held_update:
  "i < length xs \<Longrightarrow> xs ! i = (q, ph) \<Longrightarrow>
   held (xs[i := (q', ph')]) + phase_row ph = held xs + phase_row ph'"
proof (induction xs arbitrary: i)
  case Nil
  then show ?case by simp
next
  case (Cons x xs)
  then show ?case
    by (cases i) (auto simp: held_def add_ac)
qed

lemma held_nth:
  "i < length xs \<Longrightarrow> xs ! i = (q, ph) \<Longrightarrow> phase_row ph \<subseteq># held xs"
proof (induction xs arbitrary: i)
  case Nil
  then show ?case by simp
next
  case (Cons x xs)
  then show ?case
    by (cases i) (auto simp: held_def intro: subset_mset.order_trans [OF _ mset_subset_eq_add_right])
qed

lemma start_request_row: "start_request s q = (ph, ws) \<Longrightarrow> phase_row ph = {#}"
  by (auto simp: start_request_def split: sum.splits prod.splits)

lemma start_request_not_held: "start_request s q = (ph, ws) \<Longrightarrow> kept_row ph' ph = []"
  by (auto simp: start_request_def split: sum.splits prod.splits)

lemma mset_filter_id:
  "distinct (map ev_id xs) \<Longrightarrow> e \<in> set xs \<Longrightarrow>
   mset (filter (\<lambda>x. ev_id x \<noteq> ev_id e) xs) + {#e#} = mset xs"
proof (induction xs)
  case Nil
  then show ?case by simp
next
  case (Cons x xs)
  show ?case
  proof (cases "x = e")
    case True
    with Cons.prems have "list_all (\<lambda>y. ev_id y \<noteq> ev_id e) xs"
      by (auto simp: list_all_iff) (metis image_eqI)
    then have "filter (\<lambda>y. ev_id y \<noteq> ev_id e) xs = xs"
      by (induction xs) auto
    with True show ?thesis by simp
  next
    case False
    with Cons.prems have "e \<in> set xs" and "ev_id x \<noteq> ev_id e"
      by (auto simp: image_iff)
    with Cons.prems Cons.IH show ?thesis by (simp add: add_ac)
  qed
qed

text \<open>One advance of a request keeps the store well-formed and moves rows between the
  store, the request's phase and \<open>kept\<close>, nothing else.\<close>

lemma advance_rows:
  assumes wf: "wf_db s" and held: "phase_row ph \<subseteq># mset (eventTypes s)"
    and adv: "advance s q ph = (ph', s', ws)"
  shows "wf_db s' \<and> memberships s' = memberships s \<and>
         mset (eventTypes s') + phase_row ph = mset (eventTypes s) + phase_row ph' + mset (kept_row ph ph')"
proof (cases ph)
  case (Authorized d)
  with adv show ?thesis using wf
    by (auto simp: check_slug_def split: option.splits)
next
  case (Cleared d)
  from Cleared adv have "eventType_create s d = (row_of_data (next_id s) d, s')"
    by (auto simp: eventType_create_def Let_def)
  with wf have "wf_db s'" by (rule wf_db_create)
  with Cleared adv show ?thesis
    by (auto simp: eventType_create_def Let_def)
next
  case (Inserted e)
  with adv show ?thesis using wf
    by (auto simp: Let_def split: if_splits)
next
  case (Refused e)
  with held have e: "e \<in> set (eventTypes s)" by simp
  then have ex: "list_ex (\<lambda>x. ev_id x = ev_id e) (eventTypes s)"
    by (auto simp: list_ex_iff)
  with Refused adv have s': "s' = s\<lparr>eventTypes := filter (\<lambda>x. ev_id x \<noteq> ev_id e) (eventTypes s)\<rparr>"
    and ph': "ph' = Returned (Inl (TRPCError BAD_REQUEST (Cause (TRPCError INTERNAL_SERVER_ERROR
             (Message ''Payment not created due to internal server errror'')))))"
    by (auto simp: eventType_delete_def)
  have "eventType_delete s (ev_id e) = Inr s'" using ex s' by (simp add: eventType_delete_def)
  with wf have "wf_db s'" by (rule wf_db_delete)
  moreover from wf e have "mset (filter (\<lambda>x. ev_id x \<noteq> ev_id e) (eventTypes s)) + {#e#} =
      mset (eventTypes s)"
    by (intro mset_filter_id) (auto simp: wf_db_def)
  ultimately show ?thesis using Refused s' ph' by simp
next
  case (Returned r)
  with adv have "ph' = Returned r" "s' = s" by auto
  with Returned wf show ?thesis by simp
qed

text \<open>
  The accounting of one step, for any multiset \<open>B\<close> of rows that the requests do not
  own: a step keeps the store well-formed and the memberships, and keeps the rows equal
  to \<open>B\<close> plus the kept rows plus the held rows.
\<close>

lemma conc_step_accounts:
  assumes step: "conc_step c c'" and wf: "wf_db (cstore c)"
    and acc: "mset (eventTypes (cstore c)) = B + mset (kept c) + held (inflight c)"
  shows "wf_db (cstore c') \<and> memberships (cstore c') = memberships (cstore c) \<and>
         mset (eventTypes (cstore c')) = B + mset (kept c') + held (inflight c') \<and>
         orphans c' = orphans c"
  using step
proof cases
  case (begin_req q ph ws)
  with wf acc show ?thesis
    by (simp add: start_request_row)
next
  case (advance_req i q ph ph' s' ws)
  from advance_req(2,3) have "phase_row ph \<subseteq># held (inflight c)" by (rule held_nth)
  with acc have "phase_row ph \<subseteq># mset (eventTypes (cstore c))"
    by (metis mset_subset_eq_add_right subset_mset.order_trans)
  from advance_rows [OF wf this advance_req(5)]
  have r: "wf_db s'" "memberships s' = memberships (cstore c)"
    "mset (eventTypes s') + phase_row ph =
       mset (eventTypes (cstore c)) + phase_row ph' + mset (kept_row ph ph')" by auto
  from held_update [OF advance_req(2,3), of q ph']
  have h: "held ((inflight c)[i := (q, ph')]) + phase_row ph = held (inflight c) + phase_row ph'" .
  have "mset (eventTypes s') + phase_row ph =
        B + mset (kept c @ kept_row ph ph') + held ((inflight c)[i := (q, ph')]) + phase_row ph"
    using r(3) acc h by (simp add: add_ac)
  then have "mset (eventTypes s') = B + mset (kept c @ kept_row ph ph') + held ((inflight c)[i := (q, ph')])"
    by simp
  with r(1,2) advance_req(1) show ?thesis by simp
qed

lemma conc_step_inv:
  assumes step: "conc_step c c'" and inv: "conc_inv s0 c"
  shows "conc_inv s0 c'"
  using inv conc_step_accounts [OF step, of "mset (eventTypes s0)"]
  by (simp add: conc_inv_def)

lemma conc_reachable_inv:
  "conc_reachable s0 c \<Longrightarrow> wf_db s0 \<Longrightarrow> conc_inv s0 c"
proof (induction rule: conc_reachable.induct)
  case init
  then show ?case by (simp add: conc_inv_def conc_init_def held_def)
next
  case (step c c')
  then show ?case by (blast intro: conc_step_inv)
qed

lemma schedule_step: "schedule c d = c \<or> conc_step c (schedule c d)"
proof (cases d)
  case (Begin q)
  then show ?thesis
    by (cases "start_request (cstore c) q") (auto intro: conc_step.begin_req)
next
  case (Step i)
  show ?thesis
  proof (cases "i < length (inflight c) \<and> \<not> is_returned (snd (inflight c ! i))")
    case True
    obtain q ph where qph: "inflight c ! i = (q, ph)" by fastforce
    obtain ph' s' ws where a: "advance (cstore c) q ph = (ph', s', ws)" by (metis prod_cases3)
    from True qph a have "conc_step c (schedule c d)"
      unfolding Step by (auto intro!: conc_step.advance_req)
    then show ?thesis ..
  next
    case False
    then show ?thesis unfolding Step by auto
  qed
qed

lemma run_schedule_reachable:
  "conc_reachable s0 c \<Longrightarrow> conc_reachable s0 (run_schedule c ds)"
proof (induction ds arbitrary: c)
  case Nil
  then show ?case by simp
next
  case (Cons d ds)
  have "conc_reachable s0 (schedule c d)"
    using schedule_step [of c d] Cons.prems by (auto intro: conc_reachable.step)
  then show ?case by (simp add: Cons.IH)
qed

lemma held_all_returned:
  "list_all (\<lambda>(q, ph). is_returned ph) xs \<Longrightarrow> held xs = {#}"
proof (induction xs)
  case Nil
  then show ?case by (simp add: held_def)
next
  case (Cons x xs)
  obtain q ph where x: "x = (q, ph)" by fastforce
  with Cons.prems have "is_returned ph" by simp
  then have "phase_row ph = {#}" by (cases ph) auto
  with Cons x show ?case by (simp add: held_def)
qed

lemma filter_id_remove1:
  "distinct (map ev_id xs) \<Longrightarrow> e \<in> set xs \<Longrightarrow>
   filter (\<lambda>x. ev_id x \<noteq> ev_id e) xs = remove1 e xs"
proof (induction xs)
  case Nil
  then show ?case by simp
next
  case (Cons x xs)
  show ?case
  proof (cases "x = e")
    case True
    with Cons.prems have "list_all (\<lambda>y. ev_id y \<noteq> ev_id e) xs"
      by (auto simp: list_all_iff) (metis image_eqI)
    then have "filter (\<lambda>y. ev_id y \<noteq> ev_id e) xs = xs"
      by (induction xs) auto
    with True show ?thesis by simp
  next
    case False
    with Cons.prems have "e \<in> set xs" and "ev_id x \<noteq> ev_id e"
      by (auto simp: image_iff)
    with Cons.prems Cons.IH False show ?thesis by simp
  qed
qed

lemma mset_held_row [simp]: "mset (held_row ph) = phase_row ph"
  by (cases ph) auto

lemma crash_step_inv:
  assumes step: "crash_step c c'" and inv: "crash_inv s0 c"
  shows "crash_inv s0 c'"
  using step
proof cases
  case run
  with inv conc_step_accounts [OF run, of "mset (eventTypes s0) + mset (orphans c)"] show ?thesis
    by (simp add: crash_inv_def)
next
  case (crash i q ph)
  from held_update [OF crash(2,3), of q "Returned (Inl crashed)"]
  have "held ((inflight c)[i := (q, Returned (Inl crashed))]) + phase_row ph = held (inflight c)"
    by simp
  with inv crash(1) show ?thesis by (simp add: crash_inv_def add_ac)
qed

subsection \<open>Properties of interleaved requests\<close>

text \<open>
  C16. Under any interleaving of concurrent requests from a well-formed store, the store
  stays well-formed, and no compensation removes a row that existed before or a row of a
  request that returned a payment.
\<close>

theorem interleaving_keeps_rows:
  assumes "conc_reachable s0 c" and "wf_db s0"
  shows "wf_db (cstore c) \<and> set (eventTypes s0) \<subseteq> set (eventTypes (cstore c)) \<and>
         set (kept c) \<subseteq> set (eventTypes (cstore c))"
proof -
  from assms have inv: "conc_inv s0 c" by (rule conc_reachable_inv)
  then have "set_mset (mset (eventTypes (cstore c))) =
               set_mset (mset (eventTypes s0) + mset (kept c) + held (inflight c))"
    unfolding conc_inv_def by (elim conjE) (rule arg_cong)
  then have "set (eventTypes (cstore c)) =
               set (eventTypes s0) \<union> set (kept c) \<union> set_mset (held (inflight c))"
    by simp
  with inv show ?thesis by (auto simp: conc_inv_def)
qed

text \<open>
  C17. No leaked rows: once every request in flight has returned, the rows of the store are
  exactly the initial rows plus one row per request that returned a payment. The row of
  every failed request is gone, whatever the interleaving was.
\<close>

theorem interleaving_quiescent_rows:
  assumes "conc_reachable s0 c" and "wf_db s0"
    and "list_all (\<lambda>(q, ph). is_returned ph) (inflight c)"
  shows "mset (eventTypes (cstore c)) = mset (eventTypes s0) + mset (kept c) \<and>
         memberships (cstore c) = memberships s0"
proof -
  from assms(1,2) have "conc_inv s0 c" by (rule conc_reachable_inv)
  with held_all_returned [OF assms(3)] show ?thesis by (simp add: conc_inv_def)
qed

text \<open>
  C18. Under interleaving the compensating delete of a request whose payment failed always
  finds its row, and removes that row and no other: Prisma's not-found error is
  unreachable.
\<close>

theorem interleaving_compensation_exact:
  assumes "conc_reachable s0 c" and "wf_db s0"
    and "i < length (inflight c)" and "inflight c ! i = (q, Refused e)"
  shows "eventType_delete (cstore c) (ev_id e) =
           Inr ((cstore c)\<lparr>eventTypes := remove1 e (eventTypes (cstore c))\<rparr>)"
proof -
  from assms(1,2) have inv: "conc_inv s0 c" by (rule conc_reachable_inv)
  from held_nth [OF assms(3,4)] have "e \<in># held (inflight c)" by simp
  with inv have "e \<in># mset (eventTypes (cstore c))" by (simp add: conc_inv_def)
  then have e: "e \<in> set (eventTypes (cstore c))" by simp
  from inv have d: "distinct (map ev_id (eventTypes (cstore c)))" by (simp add: conc_inv_def wf_db_def)
  from d e have "filter (\<lambda>x. ev_id x \<noteq> ev_id e) (eventTypes (cstore c)) = remove1 e (eventTypes (cstore c))"
    by (rule filter_id_remove1)
  moreover from e have "list_ex (\<lambda>x. ev_id x = ev_id e) (eventTypes (cstore c))"
    by (auto simp: list_ex_iff)
  ultimately show ?thesis by (simp add: eventType_delete_def)
qed

end
