(* ===== verification/FaultyInterleaving.thy ===== *)
theory FaultyInterleaving
  imports Interleaving Faults
begin

text \<open>
  Concurrent requests whose collaborators may throw: the composition of theories
  \<open>Interleaving\<close> and \<open>Faults\<close>. \<open>fault_step\<close> is \<open>crash_step\<close> plus two ways an await can
  reject. A request may fail before its \<open>try\<close> block (the metadata parse,
  \<open>getAppKeysFromSlug\<close>, \<open>getUsersCredentials\<close> or \<open>membership.findFirst\<close>), which leaves
  the store alone. Any await of the \<open>try\<close> block may also throw: the slug lookup, the
  insert, \<open>handlePayments\<close> or the compensating delete. The \<open>catch\<close> rewraps what it
  throws as \<open>BAD_REQUEST\<close>, and the row held at that point (after the insert) stays in the
  store as an orphan, as theory \<open>Faults\<close> shows for one request.
  The typing invariant \<open>config_typed\<close> says that every row a request holds, keeps or
  orphans is a row this handler writes (\<open>handler_row\<close>: unpaid, empty slug). It is
  preserved by every step, in the manner of a type-preservation proof. So is
  \<open>paid_rows_kept\<close>: the paid rows are those of the initial store.
\<close>

subsection \<open>Rejecting awaits\<close>

text \<open>
  What an await has logged when it throws: \<open>handlePayments\<close> (line 109) was called;
  the other awaits log nothing.
\<close>

fun reject_effects :: "request \<Rightarrow> phase \<Rightarrow> effect list" where
  "reject_effects q (Inserted e) =
     [ChargeCall \<lparr>pi_title = inp_title (rq_input q), pi_slug = inp_slug (rq_input q),
                  pi_amount = ev_amount e, pi_id = ev_id e\<rparr>
        (user_email (rq_user q)) (or_empty (user_username (rq_user q)))]"
| "reject_effects q _ = []"

inductive fault_step :: "config \<Rightarrow> config \<Rightarrow> bool" where
  run: "crash_step c c' \<Longrightarrow> fault_step c c'"
| reject_begin: "fault_step c (c\<lparr>inflight := inflight c @ [(q, Returned (Inl ex))]\<rparr>)"
| reject: "i < length (inflight c) \<Longrightarrow> inflight c ! i = (q, ph) \<Longrightarrow> \<not> is_returned ph \<Longrightarrow>
     fault_step c (c\<lparr>inflight := (inflight c)[i := (q, Returned (Inl (TRPCError BAD_REQUEST (Cause ex))))],
                    ctrace := ctrace c @ reject_effects q ph, orphans := orphans c @ held_row ph\<rparr>)"

inductive fault_reachable :: "db \<Rightarrow> config \<Rightarrow> bool" where
  init: "fault_reachable s0 (conc_init s0)"
| step: "fault_reachable s0 c \<Longrightarrow> fault_step c c' \<Longrightarrow> fault_reachable s0 c'"

subsection \<open>Typing of the rows\<close>

text \<open>A row written by this handler: \<open>paid\<close> is false and the slug was cleared (line 99).\<close>

definition handler_row :: "event_type \<Rightarrow> bool" where
  "handler_row e \<longleftrightarrow> \<not> ev_paid e \<and> ev_slug e = []"

fun phase_typed :: "phase \<Rightarrow> bool" where
  "phase_typed (Cleared d) = (d_slug d = [])"
| "phase_typed (Inserted e) = handler_row e"
| "phase_typed (Refused e) = handler_row e"
| "phase_typed _ = True"

definition config_typed :: "config \<Rightarrow> bool" where
  "config_typed c \<longleftrightarrow>
     list_all (\<lambda>(q, ph). phase_typed ph) (inflight c) \<and>
     list_all handler_row (kept c) \<and> list_all handler_row (orphans c)"

text \<open>
  The paid rows, in their order, are those of the initial store: the requests only append
  unpaid rows and delete their own.
\<close>

definition paid_rows_kept :: "db \<Rightarrow> config \<Rightarrow> bool" where
  "paid_rows_kept s0 c \<longleftrightarrow> filter ev_paid (eventTypes (cstore c)) = filter ev_paid (eventTypes s0)"

subsection \<open>Lemmas\<close>

lemma start_request_typed: "start_request s q = (ph, ws) \<Longrightarrow> phase_typed ph"
  by (auto simp: start_request_def split: sum.splits prod.splits)

lemma advance_typed:
  assumes "phase_typed ph" and "advance s q ph = (ph', s', ws)"
  shows "phase_typed ph' \<and> list_all handler_row (kept_row ph ph')"
  using assms
  by (cases ph)
     (auto simp: handler_row_def Let_def check_slug_def eventType_create_def
       split: option.splits sum.splits if_splits)

lemma held_row_typed: "phase_typed ph \<Longrightarrow> list_all handler_row (held_row ph)"
  by (cases ph) auto

lemma typed_update:
  "list_all (\<lambda>(q, ph). phase_typed ph) xs \<Longrightarrow> phase_typed ph' \<Longrightarrow>
   list_all (\<lambda>(q, ph). phase_typed ph) (xs[i := (q', ph')])"
proof -
  assume xs: "list_all (\<lambda>(q, ph). phase_typed ph) xs" and t: "phase_typed ph'"
  have "set (xs[i := (q', ph')]) \<subseteq> insert (q', ph') (set xs)" by (rule set_update_subset_insert)
  with xs t show ?thesis by (auto simp: list_all_iff)
qed

lemma typed_nth:
  "list_all (\<lambda>(q, ph). phase_typed ph) xs \<Longrightarrow> i < length xs \<Longrightarrow> xs ! i = (q, ph) \<Longrightarrow> phase_typed ph"
  by (fastforce simp: list_all_length)

lemma conc_step_typed: "conc_step c c' \<Longrightarrow> config_typed c \<Longrightarrow> config_typed c'"
proof (induction rule: conc_step.induct)
  case (begin_req c q ph ws)
  then show ?case by (simp add: config_typed_def start_request_typed)
next
  case (advance_req i c q ph ph' s' ws)
  from advance_req.prems advance_req.hyps(1,2) have "phase_typed ph"
    by (auto simp: config_typed_def intro: typed_nth)
  from advance_typed [OF this advance_req.hyps(4)] advance_req.prems show ?case
    by (simp add: config_typed_def typed_update)
qed

lemma fault_step_typed: "fault_step c c' \<Longrightarrow> config_typed c \<Longrightarrow> config_typed c'"
proof (induction rule: fault_step.induct)
  case (run c c')
  then show ?case
  proof (cases rule: crash_step.cases)
    case (crash i q ph)
    with run.prems have "phase_typed ph" by (auto simp: config_typed_def intro: typed_nth)
    with crash run.prems show ?thesis
      by (simp add: config_typed_def typed_update held_row_typed)
  qed (blast intro: conc_step_typed)
next
  case (reject_begin c q ex)
  then show ?case by (simp add: config_typed_def)
next
  case (reject i c q ph ex)
  then have "phase_typed ph" by (auto simp: config_typed_def intro: typed_nth)
  with reject show ?case
    by (simp add: config_typed_def typed_update held_row_typed)
qed

lemma fault_step_inv: "fault_step c c' \<Longrightarrow> crash_inv s0 c \<Longrightarrow> crash_inv s0 c'"
proof (induction rule: fault_step.induct)
  case (run c c')
  then show ?case by (rule crash_step_inv)
next
  case (reject_begin c q ex)
  then show ?case by (simp add: crash_inv_def)
next
  case (reject i c q ph ex)
  from held_update [OF reject(1,2), of q "Returned (Inl (TRPCError BAD_REQUEST (Cause ex)))"]
  have "held ((inflight c)[i := (q, Returned (Inl (TRPCError BAD_REQUEST (Cause ex))))]) + phase_row ph =
          held (inflight c)"
    by simp
  with reject.prems reject(1) show ?case by (simp add: crash_inv_def add_ac)
qed

lemma fault_reachable_inv:
  "fault_reachable s0 c \<Longrightarrow> wf_db s0 \<Longrightarrow> crash_inv s0 c \<and> config_typed c"
proof (induction rule: fault_reachable.induct)
  case init
  then show ?case by (simp add: crash_inv_def config_typed_def conc_init_def held_def)
next
  case (step c c')
  then show ?case by (blast intro: fault_step_inv fault_step_typed)
qed

lemma held_typed:
  "list_all (\<lambda>(q, ph). phase_typed ph) xs \<Longrightarrow> \<forall>e\<in>#held xs. handler_row e"
proof (induction xs)
  case Nil
  then show ?case by (simp add: held_def)
next
  case (Cons x xs)
  obtain q ph where x: "x = (q, ph)" by fastforce
  with Cons.prems have "phase_typed ph" by simp
  then have "\<forall>e\<in>#phase_row ph. handler_row e" by (cases ph) auto
  with Cons x show ?case by (auto simp: held_def)
qed

lemma run_schedule_fault_reachable:
  "fault_reachable s0 c \<Longrightarrow> fault_reachable s0 (run_schedule c ds)"
proof (induction ds arbitrary: c)
  case Nil
  then show ?case by simp
next
  case (Cons d ds)
  have "fault_reachable s0 (schedule c d)"
    using schedule_step [of c d] Cons.prems
    by (auto intro: fault_reachable.step fault_step.run crash_step.run)
  then show ?case by (simp add: Cons.IH)
qed

lemma filter_paid_delete:
  assumes "distinct (map ev_id xs)" and "e \<in> set xs" and "\<not> ev_paid e"
  shows "filter ev_paid (filter (\<lambda>x. ev_id x \<noteq> ev_id e) xs) = filter ev_paid xs"
proof -
  from assms(1,2) have "filter (\<lambda>x. ev_id x \<noteq> ev_id e) xs = remove1 e xs"
    by (rule filter_id_remove1)
  moreover from assms(3) have "e \<notin> set (filter ev_paid xs)" by simp
  ultimately show ?thesis by (simp add: filter_remove1 remove1_idem)
qed

lemma advance_paid_rows:
  assumes wf: "wf_db s" and ty: "phase_typed ph" and held: "phase_row ph \<subseteq># mset (eventTypes s)"
    and adv: "advance s q ph = (ph', s', ws)"
  shows "filter ev_paid (eventTypes s') = filter ev_paid (eventTypes s)"
proof (cases ph)
  case (Refused e)
  with held have e: "e \<in> set (eventTypes s)" by simp
  from Refused ty have "\<not> ev_paid e" by (simp add: handler_row_def)
  with wf e have "filter ev_paid (filter (\<lambda>x. ev_id x \<noteq> ev_id e) (eventTypes s)) =
                    filter ev_paid (eventTypes s)"
    by (intro filter_paid_delete) (simp_all add: wf_db_def)
  with Refused adv show ?thesis by (auto simp: eventType_delete_def split: if_splits)
qed (use adv in \<open>auto simp: Let_def eventType_create_def check_slug_def split: option.splits sum.splits if_splits\<close>)

lemma fault_step_paid_rows:
  assumes step: "fault_step c c'" and inv: "crash_inv s0 c" and ty: "config_typed c"
    and paid: "paid_rows_kept s0 c"
  shows "paid_rows_kept s0 c'"
  using step
proof cases
  case run
  then show ?thesis
  proof cases
    case conc: run
    then show ?thesis
    proof cases
      case (begin_req q ph ws)
      with paid show ?thesis by (simp add: paid_rows_kept_def)
    next
      case (advance_req i q ph ph' s' ws)
      from ty advance_req(2,3) have "phase_typed ph" by (auto simp: config_typed_def intro: typed_nth)
      moreover from advance_req(2,3) have "phase_row ph \<subseteq># held (inflight c)" by (rule held_nth)
      with inv have "phase_row ph \<subseteq># mset (eventTypes (cstore c))"
        by (metis crash_inv_def mset_subset_eq_add_right subset_mset.order_trans)
      moreover from inv have "wf_db (cstore c)" by (simp add: crash_inv_def)
      ultimately have "filter ev_paid (eventTypes s') = filter ev_paid (eventTypes (cstore c))"
        using advance_req(5) by (intro advance_paid_rows)
      with paid advance_req(1) show ?thesis by (simp add: paid_rows_kept_def)
    qed
  qed (use paid in \<open>simp add: paid_rows_kept_def\<close>)
qed (use paid in \<open>simp_all add: paid_rows_kept_def\<close>)

lemma fault_reachable_paid_rows:
  "fault_reachable s0 c \<Longrightarrow> wf_db s0 \<Longrightarrow> paid_rows_kept s0 c"
proof (induction rule: fault_reachable.induct)
  case init
  then show ?case by (simp add: paid_rows_kept_def conc_init_def)
next
  case (step c c')
  from fault_reachable_inv [OF step.hyps(1) step.prems] step.IH [OF step.prems] step.hyps(2)
  show ?case by (blast intro: fault_step_paid_rows)
qed

lemma find_filter_paid:
  "(\<And>x. P x \<Longrightarrow> ev_paid x) \<Longrightarrow> find P (filter ev_paid xs) = find P xs"
  by (induction xs) auto

lemma crash_inv_rows:
  "crash_inv s0 c \<Longrightarrow>
   set (eventTypes (cstore c)) =
     set (eventTypes s0) \<union> set (orphans c) \<union> set (kept c) \<union> set_mset (held (inflight c))"
proof -
  assume "crash_inv s0 c"
  then have "set_mset (mset (eventTypes (cstore c))) =
               set_mset (mset (eventTypes s0) + mset (orphans c) + mset (kept c) + held (inflight c))"
    unfolding crash_inv_def by (elim conjE) (rule arg_cong)
  then show ?thesis by simp
qed

subsection \<open>Properties\<close>

text \<open>
  C25. Typing of the store under interleaving, collaborator faults and crashes. Every row
  is either an initial row or a row this handler wrote: unpaid, with an empty slug. The
  paid rows are those of the initial store, in the same order. So the paid-slug lookup of
  line 88 gives the same answer as on the initial store, for every user and slug. The
  duplicate check never fires on a row this handler created, however the requests
  interleave or fail.
\<close>

theorem fault_rows_typed:
  assumes "fault_reachable s0 c" and "wf_db s0"
  shows "wf_db (cstore c) \<and>
         list_all (\<lambda>e. e \<in> set (eventTypes s0) \<or> handler_row e) (eventTypes (cstore c)) \<and>
         filter ev_paid (eventTypes (cstore c)) = filter ev_paid (eventTypes s0) \<and>
         eventType_findFirst (cstore c) u sl = eventType_findFirst s0 u sl"
proof -
  from fault_reachable_inv [OF assms] have inv: "crash_inv s0 c" and ty: "config_typed c" by auto
  from ty have "\<forall>e\<in>#held (inflight c). handler_row e"
    by (intro held_typed) (simp add: config_typed_def)
  with ty crash_inv_rows [OF inv]
  have rows: "list_all (\<lambda>e. e \<in> set (eventTypes s0) \<or> handler_row e) (eventTypes (cstore c))"
    by (auto simp: list_all_iff config_typed_def)
  from fault_reachable_paid_rows [OF assms]
  have paid: "filter ev_paid (eventTypes (cstore c)) = filter ev_paid (eventTypes s0)"
    by (simp add: paid_rows_kept_def)
  let ?P = "\<lambda>e. ev_owner e = Some u \<and> ev_slug e = sl \<and> ev_paid e"
  have "find ?P (eventTypes (cstore c)) = find ?P (filter ev_paid (eventTypes (cstore c)))"
    by (rule find_filter_paid [symmetric]) simp
  also have "\<dots> = find ?P (filter ev_paid (eventTypes s0))" by (simp only: paid)
  also have "\<dots> = find ?P (eventTypes s0)" by (rule find_filter_paid) simp
  finally have "eventType_findFirst (cstore c) u sl = eventType_findFirst s0 u sl"
    by (simp add: eventType_findFirst_def)
  with inv rows paid show ?thesis by (simp add: crash_inv_def)
qed

text \<open>
  C26. No leaked rows under interleaving, collaborator faults and crashes: once every
  request has returned, failed or died, the rows are the initial rows, the kept rows of
  paid requests, and the orphans. An orphan is the row of a request whose
  \<open>handlePayments\<close> or compensating delete threw, or whose process died after its insert.
  Kept rows and orphans are all unpaid handler rows; the memberships are unchanged.
\<close>

theorem fault_quiescent_rows:
  assumes "fault_reachable s0 c" and "wf_db s0"
    and "list_all (\<lambda>(q, ph). is_returned ph) (inflight c)"
  shows "wf_db (cstore c) \<and> memberships (cstore c) = memberships s0 \<and>
         mset (eventTypes (cstore c)) = mset (eventTypes s0) + mset (kept c) + mset (orphans c) \<and>
         list_all handler_row (kept c) \<and> list_all handler_row (orphans c)"
proof -
  from fault_reachable_inv [OF assms(1,2)] have inv: "crash_inv s0 c" and ty: "config_typed c" by auto
  with held_all_returned [OF assms(3)] show ?thesis
    by (simp add: crash_inv_def config_typed_def add_ac)
qed

end
