(* ===== verification/ConcurrentScenarios.thy ===== *)
theory ConcurrentScenarios
  imports Scenarios FaultyInterleaving
begin

text \<open>
  Concrete interleavings of requests, built from the fixtures of theory \<open>Scenarios\<close>,
  and the closed witnesses of the properties of theories \<open>Interleaving\<close> and
  \<open>FaultyInterleaving\<close>. Each run is a list of scheduling decisions evaluated by
  \<open>simp\<close>; its reachability comes from \<open>run_schedule_reachable\<close> and its analogues.
\<close>

subsection \<open>Fixtures\<close>

text \<open>
  Two concurrent requests of Alice in \<open>member_store\<close>, with the same input: one whose
  payment fails and one whose payment succeeds. \<open>race\<close> interleaves them await by await;
  after it the failing request holds its row for compensation and the paying one has
  returned. \<open>race_done\<close> then lets the failing request compensate.
\<close>

definition req_failing :: request where
  "req_failing = \<lparr>rq_env = env_failing, rq_user = alice, rq_input = intro_input\<rparr>"

definition req_paying :: request where
  "req_paying = \<lparr>rq_env = env_paying, rq_user = alice, rq_input = intro_input\<rparr>"

definition race :: "decision list" where
  "race = [Begin req_failing, Begin req_paying, Step 0, Step 1, Step 0, Step 1, Step 0, Step 1]"

definition race_done :: "decision list" where
  "race_done = race @ [Step 0]"

text \<open>
  Alice, as ADMIN of team 3, creates a team event type with slug \<open>team\<close> in
  \<open>admin_store\<close>, scheduled alone. In \<open>fault_race\<close> the compensating delete of the
  failing request of \<open>race\<close> throws.
\<close>

definition req_team :: request where
  "req_team = \<lparr>rq_env = env_paying, rq_user = alice, rq_input = team_input\<lparr>inp_slug := ''team''\<rparr>\<rparr>"

definition team_run :: "decision list" where
  "team_run = [Begin req_team, Step 0, Step 0, Step 0]"

definition fault_race :: config where
  "fault_race =
     (run_schedule (conc_init member_store) race)\<lparr>
        inflight := (inflight (run_schedule (conc_init member_store) race))[0 :=
          (req_failing, Returned (Inl (TRPCError BAD_REQUEST (Cause db_down))))],
        ctrace := ctrace (run_schedule (conc_init member_store) race) @
          reject_effects req_failing (Refused intro_row),
        orphans := orphans (run_schedule (conc_init member_store) race) @ held_row (Refused intro_row)\<rparr>"

subsection \<open>Witnesses of the interleaving properties\<close>

theorem interleaving_keeps_rows_witness:
  "conc_reachable member_store (run_schedule (conc_init member_store) race) \<and> wf_db member_store \<and>
   kept (run_schedule (conc_init member_store) race) = [intro_row\<lparr>ev_id := 2\<rparr>] \<and>
   wf_db (cstore (run_schedule (conc_init member_store) race)) \<and>
   set (kept (run_schedule (conc_init member_store) race)) \<subseteq>
     set (eventTypes (cstore (run_schedule (conc_init member_store) race)))"
proof -
  have h1: "conc_reachable member_store (run_schedule (conc_init member_store) race)"
    by (intro run_schedule_reachable conc_reachable.init)
  have h2: "wf_db member_store" by (simp add: member_store_def wf_db_def)
  have k: "kept (run_schedule (conc_init member_store) race) = [intro_row\<lparr>ev_id := 2\<rparr>]"
    by (simp add: run_defs race_def req_failing_def req_paying_def conc_init_def start_request_def)
  show ?thesis using h1 h2 k interleaving_keeps_rows [OF h1 h2] by simp
qed

theorem interleaving_quiescent_rows_witness:
  "conc_reachable member_store (run_schedule (conc_init member_store) race_done) \<and> wf_db member_store \<and>
   list_all (\<lambda>(q, ph). is_returned ph) (inflight (run_schedule (conc_init member_store) race_done)) \<and>
   kept (run_schedule (conc_init member_store) race_done) = [intro_row\<lparr>ev_id := 2\<rparr>] \<and>
   mset (eventTypes (cstore (run_schedule (conc_init member_store) race_done))) = {#intro_row\<lparr>ev_id := 2\<rparr>#}"
proof -
  have h1: "conc_reachable member_store (run_schedule (conc_init member_store) race_done)"
    by (intro run_schedule_reachable conc_reachable.init)
  have h2: "wf_db member_store" by (simp add: member_store_def wf_db_def)
  have h3: "list_all (\<lambda>(q, ph). is_returned ph) (inflight (run_schedule (conc_init member_store) race_done))"
    by (simp add: run_defs race_done_def race_def req_failing_def req_paying_def conc_init_def
        start_request_def)
  have k: "kept (run_schedule (conc_init member_store) race_done) = [intro_row\<lparr>ev_id := 2\<rparr>]"
    by (simp add: run_defs race_done_def race_def req_failing_def req_paying_def conc_init_def
        start_request_def)
  show ?thesis using h1 h2 h3 k interleaving_quiescent_rows [OF h1 h2 h3]
    by (simp add: member_store_def)
qed

theorem interleaving_compensation_exact_witness:
  "conc_reachable member_store (run_schedule (conc_init member_store) race) \<and> wf_db member_store \<and>
   0 < length (inflight (run_schedule (conc_init member_store) race)) \<and>
   inflight (run_schedule (conc_init member_store) race) ! 0 = (req_failing, Refused intro_row) \<and>
   eventType_delete (cstore (run_schedule (conc_init member_store) race)) (ev_id intro_row) =
     Inr ((cstore (run_schedule (conc_init member_store) race))\<lparr>eventTypes := [intro_row\<lparr>ev_id := 2\<rparr>]\<rparr>)"
proof -
  have h1: "conc_reachable member_store (run_schedule (conc_init member_store) race)"
    by (intro run_schedule_reachable conc_reachable.init)
  have h2: "wf_db member_store" by (simp add: member_store_def wf_db_def)
  have h3: "0 < length (inflight (run_schedule (conc_init member_store) race))"
    by (simp add: run_defs race_def req_failing_def req_paying_def conc_init_def start_request_def)
  have h4: "inflight (run_schedule (conc_init member_store) race) ! 0 = (req_failing, Refused intro_row)"
    by (simp add: run_defs race_def req_failing_def req_paying_def conc_init_def start_request_def)
  have rows: "eventTypes (cstore (run_schedule (conc_init member_store) race)) =
                [intro_row, intro_row\<lparr>ev_id := 2\<rparr>]"
    by (simp add: run_defs race_def req_failing_def req_paying_def conc_init_def start_request_def)
  show ?thesis using h1 h2 h3 h4 rows interleaving_compensation_exact [OF h1 h2 h3 h4]
    by (simp add: intro_row_def)
qed

subsection \<open>Witnesses of progress\<close>

subsection \<open>Witnesses of the crash properties\<close>

subsection \<open>Witnesses of the properties under faults and interleaving\<close>

theorem fault_rows_typed_witness:
  "fault_reachable admin_store (run_schedule (conc_init admin_store) team_run) \<and> wf_db admin_store \<and>
   eventTypes (cstore (run_schedule (conc_init admin_store) team_run)) = [paid_intro, team_row] \<and>
   eventType_findFirst (cstore (run_schedule (conc_init admin_store) team_run)) 7 ''intro'' = Some paid_intro \<and>
   eventType_findFirst admin_store 7 ''intro'' = Some paid_intro \<and>
   filter ev_paid (eventTypes (cstore (run_schedule (conc_init admin_store) team_run))) = [paid_intro] \<and>
   handler_row team_row"
proof -
  have h1: "fault_reachable admin_store (run_schedule (conc_init admin_store) team_run)"
    by (intro run_schedule_fault_reachable fault_reachable.init)
  have h2: "wf_db admin_store" by (simp add: admin_store_def paid_intro_def wf_db_def)
  have rows: "eventTypes (cstore (run_schedule (conc_init admin_store) team_run)) = [paid_intro, team_row]"
    by (simp add: run_defs team_run_def req_team_def conc_init_def start_request_def team_row_def)
  have f: "eventType_findFirst (cstore (run_schedule (conc_init admin_store) team_run)) 7 ''intro'' =
             Some paid_intro"
    by (simp add: rows eventType_findFirst_def paid_intro_def team_row_def)
  note typed = fault_rows_typed [OF h1 h2, of 7 "''intro''"]
  from typed f have f0: "eventType_findFirst admin_store 7 ''intro'' = Some paid_intro" by simp
  from typed have "filter ev_paid (eventTypes (cstore (run_schedule (conc_init admin_store) team_run))) =
                     [paid_intro]"
    by (simp add: admin_store_def paid_intro_def)
  moreover from typed rows have "handler_row team_row"
    by (simp add: team_row_def paid_intro_def admin_store_def)
  ultimately show ?thesis using h1 h2 rows f f0 by simp
qed

theorem fault_quiescent_rows_witness:
  "fault_reachable member_store fault_race \<and> wf_db member_store \<and>
   list_all (\<lambda>(q, ph). is_returned ph) (inflight fault_race) \<and>
   kept fault_race = [intro_row\<lparr>ev_id := 2\<rparr>] \<and> orphans fault_race = [intro_row] \<and>
   mset (eventTypes (cstore fault_race)) = {#intro_row\<lparr>ev_id := 2\<rparr>, intro_row#} \<and>
   handler_row intro_row"
proof -
  let ?c = "run_schedule (conc_init member_store) race"
  have r: "fault_reachable member_store ?c"
    by (intro run_schedule_fault_reachable fault_reachable.init)
  have i: "0 < length (inflight ?c)" "inflight ?c ! 0 = (req_failing, Refused intro_row)"
    by (simp_all add: run_defs race_def req_failing_def req_paying_def conc_init_def start_request_def)
  have "fault_step ?c fault_race"
    unfolding fault_race_def using i by (intro fault_step.reject) simp_all
  with r have h1: "fault_reachable member_store fault_race" by (rule fault_reachable.step)
  have h2: "wf_db member_store" by (simp add: member_store_def wf_db_def)
  have h3: "list_all (\<lambda>(q, ph). is_returned ph) (inflight fault_race)"
    by (simp add: fault_race_def run_defs race_def req_failing_def req_paying_def conc_init_def
        start_request_def)
  have k: "kept fault_race = [intro_row\<lparr>ev_id := 2\<rparr>]" "orphans fault_race = [intro_row]"
    by (simp_all add: fault_race_def run_defs race_def req_failing_def req_paying_def conc_init_def
        start_request_def)
  show ?thesis using h1 h2 h3 k fault_quiescent_rows [OF h1 h2 h3]
    by (simp add: member_store_def add_mset_commute)
qed

end
