(* ===== verification/Spec2Isabelle.thy ===== *)
theory Spec2Isabelle
  imports ConcurrentScenarios
begin

text \<open>
  \<^bold>\<open>A verification development of cal.com's event-type creation handler and SAML IdP
  callback view.\<close>

  \<^bold>\<open>The program.\<close> Two source files.
  \<^item> \<^verbatim>\<open>src/packages/trpc/server/routers/viewer/eventTypes/create.handler.ts\<close>,
    \<open>createHandler\<close>: it parses the user's metadata and resolves the meeting
    locations of the new event type. It builds the Prisma create payload and, for a team
    event type, checks the user's membership role. Inside a \<open>try\<close> block it then refuses a
    slug the user already has as a paid event type, clears the slug, inserts the row, calls
    \<open>handlePayments\<close>, and deletes the row again when no payment reference comes back.
    Its \<open>catch\<close> rethrows every error of the \<open>try\<close> block as \<open>BAD_REQUEST\<close>.
  \<^item> \<^verbatim>\<open>src/apps/web/modules/auth/saml-idp/saml-idp-view.tsx\<close>, \<open>SamlIdp\<close>: a React view
    whose \<open>useEffect(\<dots>, [])\<close> calls \<open>signIn("saml-idp", { callbackUrl: "/", code })\<close>
    with the \<open>code\<close> query parameter. It shares no state with the handler.
  The handler's collaborators are not under src/: the Prisma client, the app store
  (\<open>getAppKeysFromSlug\<close>, \<open>getUsersCredentials\<close>, \<open>getApps\<close>), \<open>handlePayments\<close>,
  \<open>uuid\<close> and the zod metadata schema. The Prisma store is modelled from the spec's
  contract (theory \<open>Store\<close>). The others are fields of \<open>handler_env\<close>, so every theorem
  holds whatever they return.

  \<^bold>\<open>Theories, in import order.\<close>
  \<^item> \<open>Prelude\<close>: the schema enums, the location record, the exceptions (\<open>TRPCError\<close>
    whose message may be a caught exception, \<open>ZodError\<close>, Prisma's \<open>RecordNotFound\<close>),
    the observable effects (the permission warning and the \<open>handlePayments\<close> call), and
    JavaScript truthiness of optional numbers and strings.
  \<^item> \<open>Store\<close>: the persistence collaborator. Its state is the record \<open>db\<close> (event-type
    rows, memberships, the id counter). Its operations are \<open>membership_findFirst\<close>,
    \<open>eventType_findFirst\<close>, \<open>eventType_create\<close> and \<open>eventType_delete\<close>. The invariant
    \<open>wf_db\<close> says ids are distinct and below the counter. Lemmas: each operation keeps
    it, and deleting the row just created restores the rows, which the handler's
    compensation relies on.
  \<^item> \<open>Locations\<close>: lines 29 to 53 (\<open>initial_locations\<close>, \<open>find_app\<close>,
    \<open>app_location_type\<close>, \<open>assign_default_conferencing\<close>, \<open>resolve_locations\<close>).
    C10 and C11 give the result with a non-Daily preference. Two lemmas,
    \<open>resolve_locations_ignores_caller_and_key\<close> and
    \<open>resolve_locations_meet_default\<close>, give the other branches; they are the evidence
    of a divergence from the comment of line 36 (below).
  \<^item> \<open>Authorization\<close>: lines 65 to 85 (\<open>has_admin_role\<close>, \<open>authorize\<close>,
    \<open>attach_team\<close>). The spec's contract is \<open>may_create_in_team\<close>; C15 is the refinement
    lemma, under uniqueness of (user, team) memberships.
  \<^item> \<open>CreateHandler\<close>: the rest of the handler (\<open>parse_user_metadata\<close>,
    \<open>build_data\<close>, \<open>check_slug\<close>, \<open>charge_or_rollback\<close>, \<open>try_create\<close>,
    \<open>rethrow_bad_request\<close>, \<open>createHandler\<close>). Its state is the record \<open>world\<close>: the
    store and the effect log, threaded explicitly in the order of the code's awaits.
    \<open>createHandler_cases\<close> lists the five ways a run on a well-formed store can end.
    C1 to C9 follow from it: the abstract contract \<open>create_contract\<close> holds (C1),
    each error branch and the success branch have exact results (C2 to C5), the error
    kinds (C6), team rows only with an ADMIN or OWNER role (C7), the effect discipline
    (C8), and a team id without a scheduling type (C9).
  \<^item> \<open>SamlIdp\<close>: the view. \<open>search_get\<close>, \<open>saml_effect\<close> and \<open>SamlIdp_deps\<close> are the
    code; \<open>effect_fires\<close> and \<open>render\<close> are the React scheduling rule it relies on.
    \<open>saml_step\<close> is a step function over mount, re-render, navigation and unmount, and
    \<open>saml_reachable\<close> the inductive set of reachable states. C12 to C14 show one
    \<open>signIn\<close> call per mount, by rule induction for the invariant \<open>view_inv\<close>.
  \<^item> \<open>Interleaving\<close>: concurrent requests. The handler is cut at its awaits:
    \<open>start_request\<close> is lines 25 to 85, and \<open>advance\<close> is one await of the \<open>try\<close>
    block (slug lookup, insert, \<open>handlePayments\<close>, compensating delete) with the
    \<open>catch\<close> applied. \<open>conc_step\<close> starts a request or advances any unfinished
    one, so its reachable configurations are every interleaving of any number of
    requests. \<open>run_schedule\<close> replays a given interleaving. C16 to C18 show that no
    interleaving loses or leaks a row: the rows are, as a multiset, the initial rows plus
    the rows of paid requests plus those awaiting compensation, and a compensation
    deletes exactly its own row. \<open>crash_step\<close> adds the death of an unfinished request
    (the spec's section 5); the row the dead request held goes to the ghost list
    \<open>orphans\<close>, and \<open>crash_inv\<close> is the accounting with them.
  \<^item> \<open>Faults\<close>: rejecting collaborators. The record \<open>faults\<close> gives, for each awaited
    call that can throw (\<open>getAppKeysFromSlug\<close>, \<open>getUsersCredentials\<close>,
    \<open>membership.findFirst\<close>, the slug lookup, the insert, \<open>handlePayments\<close>, the
    delete), the exception it throws, if any. \<open>createHandler_exc\<close>,
    \<open>try_create_exc\<close> and \<open>charge_or_rollback_exc\<close> are the handler with a rejection
    at each await, in the code's order. C19 and C20: errors before the \<open>try\<close> block
    reach the caller unwrapped. C21 and C22: a throwing \<open>handlePayments\<close> or delete
    leaves the unpaid row. C23: bounds of one request under any faults (well-formed
    store, at most one row added and at most one effect logged). C24: only those two
    faults leave a row.
  \<^item> \<open>FaultyInterleaving\<close>: the composition of the two previous theories.
    \<open>fault_step\<close> is \<open>crash_step\<close> plus two rejections. A request may fail before
    its \<open>try\<close> block, leaving the store alone. Any await of an unfinished request may
    throw; the \<open>catch\<close> rewraps it as \<open>BAD_REQUEST\<close>, and the row held at that point
    becomes an orphan. The typing invariant \<open>config_typed\<close> (every held, kept or
    orphaned row is a \<open>handler_row\<close>: unpaid, empty slug) is preserved by every step.
    C25: every stored row is an initial row or a handler row, and the paid rows are those
    of the initial store in their order (invariant \<open>paid_rows_kept\<close>). So the paid-slug
    lookup answers exactly as on the initial store. C26: once quiescent, the rows are the
    initial, kept and orphaned ones.
  \<^item> \<open>Scenarios\<close> and \<open>ConcurrentScenarios\<close>: concrete users, inputs, stores and
    schedules, and a closed witness for each property with hypotheses. \<open>Scenarios\<close> holds
    the single-request witnesses and \<open>ConcurrentScenarios\<close> the interleaving ones. Each
    witness evaluates the model by \<open>simp\<close> and applies the property where its hypotheses
    hold.

  \<^bold>\<open>What the theorems show of the code.\<close> The behaviour the spec expects holds:
  authorization (C2, C15), duplicate slugs (C3), compensation on a failed payment (C4),
  success (C5), the single \<open>signIn\<close> per mount (C12, C13). Several places differ from the
  spec.
  \<^item> A failed payment reaches the caller as \<open>BAD_REQUEST\<close> wrapping the
    \<open>INTERNAL_SERVER_ERROR\<close>; \<open>INTERNAL_SERVER_ERROR\<close> itself never does (C4, C6).
  \<^item> The comment of line 36 says "no locations + daily api key -> default to daily".
    The code does not do that: the locations ignore the caller's \<open>locations\<close> and the
    Daily key (lemma \<open>resolve_locations_ignores_caller_and_key\<close>), and without a
    preference they are Google Meet (lemma \<open>resolve_locations_meet_default\<close>).
  \<^item> Line 99 stores every row with an empty slug and \<open>paid\<close> false, so the duplicate
    check never matches a row this handler wrote (C5, C25).
  \<^item> A team id without a scheduling type skips the team check and creates a row with
    neither owner nor team (C9).
  \<^item> The \<open>catch\<close> covers only the \<open>try\<close> block. A rejection of
    \<open>getAppKeysFromSlug\<close>, \<open>getUsersCredentials\<close> or \<open>membership.findFirst\<close>
    reaches the caller as it is, not as \<open>BAD_REQUEST\<close> as the spec's section 4.3 says
    (C19, C20).
  \<^item> Compensation happens only when \<open>handlePayments\<close> returns a falsy value. If it
    throws, or the delete throws, the unpaid row stays in the store (C21, C22, C24). This
    is the orphan of the spec's section 5, reached without any crash.

  \<^bold>\<open>Bounds, fuel, termination.\<close> The code has no loops. \<open>saml_run\<close>,
  \<open>fresh_mounts\<close> and \<open>run_schedule\<close> are structural on their lists, and
  \<open>advance\<close> moves a request one await forward, so no fuel is needed.
  One optional exception per call site is enough for faults: each collaborator is awaited
  at most once per request. Numbers are ids and amounts stored by Postgres; they do not overflow
  in the code's range, so they are \<open>nat\<close>.

  \<^bold>\<open>Not modelled.\<close>
  \<^item> The internals of the collaborators (Prisma, the app store, payments, NextAuth's
    \<open>signIn\<close>, zod). Each is modelled only through its result, or through the
    exception it throws (theory \<open>Faults\<close>). Their code is not in the repository, and the
    spec gives only their contracts. The zod user-metadata schema is one of them: the spec
    says nothing of its fields, so the parse is modelled by its three outcomes
    (\<open>user_metadata\<close>).
  \<^item> Which exception a collaborator throws, and when. \<open>FaultyInterleaving\<close> lets
    any await throw any exception, so its theorems cover every such behaviour.
  \<^item> Interleaving finer than one await: each Prisma call and each \<open>handlePayments\<close>
    call is atomic, and the slug lookup reads the store at its own step.
  \<^item> Database constraints other than id uniqueness; the spec does not state them.
  \<^item> React's StrictMode double effect in development.
  \<^item> That the module-level \<open>prisma\<close> of line 88 may be undefined in production builds;
    the model takes it to be the same store as \<open>ctx.prisma\<close>.

  \<^bold>\<open>Scope reached.\<close> Every function of the two source files is modelled, and so is
  every collaborator interface the spec describes. What is left out is listed under
  \<open>Not modelled\<close>, each item with its reason. The spec states that slug uniqueness is checked but not enforced by a
  database constraint, so the store keeps no such constraint.
\<close>

end
